theory Spec2Isabelle
  imports Complex_Main "HOL-Library.Char_ord" "HOL-Library.List_Lexorder" "HOL-Library.Multiset"
begin

section \<open>Data model\<close>

text \<open>
  The module \<^verbatim>\<open>q2_PSEA/actions/psea.py\<close> works on pandas frames of floating point
  scores. A frame is its row labels together with its columns in order, each column a
  label and one value per row. Scores are modelled as real numbers: rounding of IEEE
  doubles, NaN and the infinities are outside this model. A pair is the 2-tuple
  (baseline replicate, treatment replicate) of the pairs file.
\<close>

type_synonym path = string

type_synonym pair = "string \<times> string"

record frame =
  index :: "string list"
  columns :: "(string \<times> real list) list"

text \<open>
  Every \<^verbatim>\<open>raise\<close> of the module and of the library calls it makes is a value of
  \<open>error\<close>; a fallible computation returns \<open>error + 'a\<close>, \<open>Inl\<close> being the exception.
\<close>

datatype error =
    AttributeError string string
  | AssertionError string
  | KeyError "string list"
  | ValueError string
  | ZeroDivisionError
  | OSError string
  | CollaboratorError string

section \<open>The score preprocessor: \<^verbatim>\<open>process_scores\<close> (lines 177-202)\<close>

text \<open>Lines 183-185: \<^verbatim>\<open>base = 2; offset = 3; power = pow(base, offset)\<close>.\<close>

definition base :: real where
  "base = 2"

definition offset :: real where
  "offset = 3"

definition power_val :: real where
  "power_val = base powr offset"

text \<open>
  Lines 187-190: the two nested \<^verbatim>\<open>for\<close> loops append every replicate of every pair,
  in order, to \<^verbatim>\<open>reps_list\<close>.
\<close>

fun collect_reps :: "pair list \<Rightarrow> string list" where
  "collect_reps [] = []"
| "collect_reps ((b, t) # pairs) = b # t # collect_reps pairs"

text \<open>
  Line 191: \<^verbatim>\<open>np.unique\<close> sorts its argument and keeps one of each run of equal
  elements. Strings are ordered lexicographically by character code.
\<close>

definition np_unique :: "string list \<Rightarrow> string list" where
  "np_unique xs = remdups_adj (sort xs)"

text \<open>
  Line 193: \<^verbatim>\<open>scores.loc[:, reps_list]\<close>. Selecting by a list of labels raises
  KeyError when a label names no column; otherwise the result has, for each label in
  turn, the columns that carry it (exactly one when the frame's labels are unique, as
  those of a frame read by \<^verbatim>\<open>read_csv\<close> are).
\<close>

definition column_labels :: "frame \<Rightarrow> string list" where
  "column_labels df = map fst (columns df)"

definition select_columns :: "frame \<Rightarrow> string list \<Rightarrow> (string \<times> real list) list" where
  "select_columns df labels =
     concat (map (\<lambda>l. filter (\<lambda>c. fst c = l) (columns df)) labels)"

definition loc_columns :: "frame \<Rightarrow> string list \<Rightarrow> error + frame" where
  "loc_columns df labels =
     (let missing = filter (\<lambda>l. l \<notin> set (column_labels df)) labels in
      if missing \<noteq> [] then Inl (KeyError missing)
      else Inr (df\<lparr>columns := select_columns df labels\<rparr>))"

text \<open>
  Lines 195-202: three element-wise passes over the restricted frame, each written with
  \<^verbatim>\<open>DataFrame.apply\<close> over the columns. \<^verbatim>\<open>math.log(val, base)\<close> raises ValueError
  for an argument that is not positive, which the third pass would propagate.
\<close>

definition apply_columns :: "(real \<Rightarrow> real) \<Rightarrow> frame \<Rightarrow> frame" where
  "apply_columns f df = df\<lparr>columns := map (\<lambda>c. (fst c, map f (snd c))) (columns df)\<rparr>"

definition py_log :: "real \<Rightarrow> real \<Rightarrow> error + real" where
  "py_log val b =
     (if val \<le> 0 \<or> b \<le> 0 then Inl (ValueError ''math domain error'')
      else if b = 1 then Inl ZeroDivisionError
      else Inr (ln val / ln b))"

fun mapE :: "('a \<Rightarrow> error + 'b) \<Rightarrow> 'a list \<Rightarrow> error + 'b list" where
  "mapE f [] = Inr []"
| "mapE f (x # xs) =
     (case f x of
        Inl e \<Rightarrow> Inl e
      | Inr y \<Rightarrow> (case mapE f xs of Inl e \<Rightarrow> Inl e | Inr ys \<Rightarrow> Inr (y # ys)))"

definition add_power :: "frame \<Rightarrow> frame" where
  "add_power df = apply_columns (\<lambda>v. power_val + v) df"

definition clamp_scores :: "frame \<Rightarrow> frame" where
  "clamp_scores df = apply_columns (\<lambda>val. if val < 1 then 1 else val) df"

definition log_value :: "real \<Rightarrow> error + real" where
  "log_value val = (case py_log val base of Inl e \<Rightarrow> Inl e | Inr l \<Rightarrow> Inr (l - offset))"

definition log_column :: "string \<times> real list \<Rightarrow> error + string \<times> real list" where
  "log_column c = (case mapE log_value (snd c) of Inl e \<Rightarrow> Inl e | Inr vs \<Rightarrow> Inr (fst c, vs))"

definition log_scores :: "frame \<Rightarrow> error + frame" where
  "log_scores df =
     (case mapE log_column (columns df) of
        Inl e \<Rightarrow> Inl e
      | Inr cs \<Rightarrow> Inr (df\<lparr>columns := cs\<rparr>))"

definition process_scores :: "frame \<Rightarrow> pair list \<Rightarrow> error + frame" where
  "process_scores scores pairs =
     (let reps_list = np_unique (collect_reps pairs) in
      case loc_columns scores reps_list of
        Inl e \<Rightarrow> Inl e
      | Inr processed_scores \<Rightarrow> log_scores (clamp_scores (add_power processed_scores)))"

text \<open>
  The transform as the specification words it: \<open>f(v) = log2(max(1, v + 8)) - 3\<close>. It is
  compared below with what the three passes of the code compute.
\<close>

definition spec_transform :: "real \<Rightarrow> real" where
  "spec_transform v = log 2 (max 1 (v + 8)) - 3"

text \<open>All values of a frame satisfy a predicate.\<close>

definition all_values :: "(real \<Rightarrow> bool) \<Rightarrow> frame \<Rightarrow> bool" where
  "all_values P df = list_all (\<lambda>c. list_all P (snd c)) (columns df)"

text \<open>A small score matrix used at concrete inputs: three features, three replicates.\<close>

definition demo_scores :: frame where
  "demo_scores =
     \<lparr>index = [''pep1'', ''pep2'', ''pep3''],
      columns = [(''A'', [0, -9, 8]), (''B'', [8, 0, -20]), (''C'', [24, 1, 0])]\<rparr>"

section \<open>The table builder: \<^verbatim>\<open>make_psea_table\<close> (lines 22-174)\<close>

subsection \<open>Values, files and collaborators\<close>

text \<open>
  A pandas Series is an index and one value per index entry. The peptide sets and the
  result table of the enrichment engine are tables of text; an artifact of the host
  platform is an opaque handle.
\<close>

record series =
  s_index :: "string list"
  s_data :: "real list"

type_synonym peptide_sets = "(string \<times> string list) list"

type_synonym table = "(string \<times> string list) list"

datatype artifact = Artifact string

text \<open>The keyword arguments of the calls of lines 114-123, 149-158 and 160-168.\<close>

record psea_args =
  maxZ :: series
  deltaZ :: series
  a_peptide_sets :: peptide_sets
  a_species_taxa_file :: path
  a_threshold :: real
  a_permutation_num :: int
  a_min_size :: int
  a_max_size :: int

record zscatter_args =
  zscores :: artifact
  z_pairs_file :: path
  spline_file :: path
  p_val_access :: string
  le_peps_access :: string
  z_taxa_access :: string
  highlight_data :: path
  highlight_threshold :: real

record volcano_args =
  xy_dir :: path
  xy_access :: "string list"
  v_taxa_access :: string
  x_threshold :: real
  y_threshold :: real
  xy_labels :: "string list"
  v_titles :: "string list"

datatype action_args = ZscatterArgs zscatter_args | VolcanoArgs volcano_args

type_synonym action = "action_args \<Rightarrow> error + artifact list"

text \<open>
  The dictionary \<^verbatim>\<open>pair_spline_dict\<close> of line 75, with its three lists, and the local
  variables the loop of lines 82-133 updates.
\<close>

record spline_data =
  sp_x :: "real list"
  sp_y :: "real list"
  sp_pair :: "string list"

record loop_state =
  titles :: "string list"
  used_pairs :: "pair list"
  pair_spline_dict :: spline_data

text \<open>
  The world a call acts on: the file system (a path is a directory or a file holding a
  frame, a pair list, the spline data, a result table or other text), the lines printed,
  and the calls made to the enrichment engine and to the visualization actions, in
  order. A computation takes the world and returns the world it leaves together with its
  result or the exception it raised.
\<close>

datatype node =
    Dir
  | ScoresFile frame
  | PairsFile "pair list"
  | SplineFile spline_data
  | TableFile table
  | TextFile string

datatype call = PseaCall psea_args | ActionCall action_args

record world =
  fs :: "path \<Rightarrow> node option"
  stdout :: "string list"
  calls :: "call list"

type_synonym 'a comp = "world \<Rightarrow> world \<times> (error + 'a)"

text \<open>
  The code this module calls but does not contain is a parameter of the model: the host
  context (\<^verbatim>\<open>ctx.get_action\<close>, \<^verbatim>\<open>ctx.make_artifact\<close>), \<^verbatim>\<open>utils.remove_peptides\<close>, the
  three spline routines of \<^verbatim>\<open>splines\<close>, \<^verbatim>\<open>INTERNAL.psea\<close> (with the conversion of its
  result), the name \<^verbatim>\<open>tempfile.TemporaryDirectory\<close> picks, the readings of the
  performance counter and the rendering of \<^verbatim>\<open>round(seconds, 2)\<close>. Each may fail.
\<close>

record env =
  get_action :: "string \<Rightarrow> string \<Rightarrow> error + action"
  make_artifact :: "string \<Rightarrow> path \<Rightarrow> error + artifact"
  remove_peptides :: "frame \<Rightarrow> path \<Rightarrow> error + frame \<times> peptide_sets"
  smooth_spline :: "real list \<Rightarrow> real list \<Rightarrow> error + real list"
  R_cubic_spline :: "real list \<Rightarrow> real list \<Rightarrow> int \<Rightarrow> int option \<Rightarrow> error + real list"
  R_smooth_spline :: "real list \<Rightarrow> real list \<Rightarrow> error + real list"
  psea :: "psea_args \<Rightarrow> error + table"
  tempdir :: path
  clock :: "nat \<Rightarrow> real"
  show_rounded :: "real \<Rightarrow> string"

text \<open>The parameters of \<^verbatim>\<open>make_psea_table\<close> after \<^verbatim>\<open>ctx\<close> (lines 24-38).\<close>

record args =
  scores_file :: path
  pairs_file :: path
  peptide_sets_file :: path
  threshold :: real
  p_val_thresh :: real
  es_thresh :: real
  species_taxa_file :: path
  min_size :: int
  max_size :: int
  permutation_num :: int
  spline_type :: string
  degree :: int
  dof :: "int option"
  table_dir :: path
  pepsirf_binary :: string

text \<open>Sequencing: an exception ends the computation and keeps the world it was raised in.\<close>

definition bindW :: "'a comp \<Rightarrow> ('a \<Rightarrow> 'b comp) \<Rightarrow> 'b comp" where
  "bindW m f w = (case m w of (w', Inl e) \<Rightarrow> (w', Inl e) | (w', Inr x) \<Rightarrow> f x w')"

definition ret :: "'a \<Rightarrow> 'a comp" where
  "ret x w = (w, Inr x)"

definition lift :: "error + 'a \<Rightarrow> 'a comp" where
  "lift r w = (w, r)"

definition print_line :: "string \<Rightarrow> unit comp" where
  "print_line s w = (w\<lparr>stdout := stdout w @ [s]\<rparr>, Inr ())"

definition write_file :: "path \<Rightarrow> node \<Rightarrow> unit comp" where
  "write_file p n w = (w\<lparr>fs := (fs w)(p \<mapsto> n)\<rparr>, Inr ())"

definition log_call :: "call \<Rightarrow> unit comp" where
  "log_call c w = (w\<lparr>calls := calls w @ [c]\<rparr>, Inr ())"

subsection \<open>The timer (lines 40, 170-172)\<close>

text \<open>
  Modelled from Python's standard library, which is no part of this repository: the names
  the module \<^verbatim>\<open>time\<close> defines. Looking up any other name on the module raises
  AttributeError; calling a counter that exists returns its reading.
\<close>

definition time_module :: "string list" where
  "time_module =
     [''altzone'', ''asctime'', ''ctime'', ''daylight'', ''get_clock_info'', ''gmtime'',
      ''localtime'', ''mktime'', ''monotonic'', ''monotonic_ns'', ''perf_counter'',
      ''perf_counter_ns'', ''process_time'', ''process_time_ns'', ''sleep'', ''strftime'',
      ''strptime'', ''struct_time'', ''thread_time'', ''thread_time_ns'', ''time'',
      ''time_ns'', ''timezone'', ''tzname'', ''tzset'', ''clock_getres'', ''clock_gettime'',
      ''clock_gettime_ns'', ''clock_settime'', ''clock_settime_ns'',
      ''pthread_getcpuclockid'']"

definition time_call :: "string \<Rightarrow> real \<Rightarrow> error + real" where
  "time_call name reading =
     (if name \<in> set time_module then Inr reading else Inl (AttributeError ''time'' name))"

subsection \<open>Validation and inputs (lines 42-64)\<close>

text \<open>
  Modelled from the spec: \<^verbatim>\<open>splines.SPLINE_TYPES\<close>, a constant of
  \<^verbatim>\<open>q2_PSEA/actions/splines.py\<close>, which is absent; the specification gives the fixed
  set "r-smooth", "py-smooth", "cubic".
\<close>

definition SPLINE_TYPES :: "string list" where
  "SPLINE_TYPES = [''r-smooth'', ''py-smooth'', ''cubic'']"

definition quoted :: "string \<Rightarrow> string" where
  "quoted s = [CHR 0x27] @ s @ [CHR 0x27]"

definition os_mkdir :: "path \<Rightarrow> unit comp" where
  "os_mkdir p w =
     (if fs w p \<noteq> None then (w, Inl (OSError p)) else (w\<lparr>fs := (fs w)(p \<mapsto> Dir)\<rparr>, Inr ()))"

text \<open>Lines 42-50: the two actions are looked up, then the two assertions, then the directory.\<close>

definition prepare :: "env \<Rightarrow> args \<Rightarrow> (action \<times> action) comp" where
  "prepare e a =
     bindW (lift (get_action e ''ps-plot'' ''volcano'')) (\<lambda>volcano.
     bindW (lift (get_action e ''ps-plot'' ''zscatter'')) (\<lambda>zscatter.
     (\<lambda>w.
       if spline_type a \<notin> set SPLINE_TYPES
       then (w, Inl (AssertionError (quoted (spline_type a) @ '' is not a valid spline method!'')))
       else if fs w (table_dir a) \<noteq> None
       then (w, Inl (AssertionError
              (quoted (table_dir a) @ '' already exists! Please move or remove this directory.'')))
       else bindW (os_mkdir (table_dir a)) (\<lambda>_. ret (volcano, zscatter)) w)))"

text \<open>
  Lines 52-57: the pairs file holds one pair per line, the scores file a matrix; a path
  that holds neither cannot be read.
\<close>

definition read_pairs :: "path \<Rightarrow> (pair list) comp" where
  "read_pairs p w =
     (case fs w p of Some (PairsFile ps) \<Rightarrow> (w, Inr ps) | _ \<Rightarrow> (w, Inl (OSError p)))"

definition read_csv :: "path \<Rightarrow> frame comp" where
  "read_csv p w =
     (case fs w p of Some (ScoresFile df) \<Rightarrow> (w, Inr df) | _ \<Rightarrow> (w, Inl (OSError p)))"

text \<open>Lines 60-64: \<^verbatim>\<open>scores_file.rsplit("/", 1)\<close> splits at the last slash, if there is one.\<close>

definition rsplit1 :: "char \<Rightarrow> string \<Rightarrow> string list" where
  "rsplit1 sep s =
     (let tail = takeWhile (\<lambda>c. c \<noteq> sep) (rev s) in
      if sep \<in> set s then [rev (drop (Suc (length tail)) (rev s)), rev tail] else [s])"

definition transformed_name :: "path \<Rightarrow> path" where
  "transformed_name file =
     (let scores_file_split = rsplit1 (CHR ''/'') file in
      if length scores_file_split > 1 then ''transformed_'' @ scores_file_split ! 1
      else ''transformed_'' @ scores_file_split ! 0)"

subsection \<open>One pair (lines 83-133)\<close>

text \<open>
  Line 85: \<^verbatim>\<open>processed_scores.loc[:, pair].sort_values(by=pair[0])\<close>. The selection
  raises KeyError for a replicate that is no column; sorting raises ValueError when the
  label to sort by names more than one selected column (so for a pair of one replicate
  with itself). Rows are sorted by the baseline value in ascending order; rows of equal
  baseline value are kept in their order here, which pandas does not promise.
\<close>

definition argsort :: "real list \<Rightarrow> nat list" where
  "argsort keys = map snd (sort_key fst (zip keys [0..<length keys]))"

definition take_rows :: "nat list \<Rightarrow> frame \<Rightarrow> frame" where
  "take_rows order df =
     \<lparr>index = map (\<lambda>i. index df ! i) order,
      columns = map (\<lambda>c. (fst c, map (\<lambda>i. snd c ! i) order)) (columns df)\<rparr>"

definition sort_values :: "string \<Rightarrow> frame \<Rightarrow> error + frame" where
  "sort_values by df =
     (case filter (\<lambda>c. fst c = by) (columns df) of
        [] \<Rightarrow> Inl (KeyError [by])
      | [c] \<Rightarrow> Inr (take_rows (argsort (snd c)) df)
      | _ \<Rightarrow> Inl (ValueError (''The column label '' @ quoted by @ '' is not unique.'')))"

definition sorted_selection :: "frame \<Rightarrow> pair \<Rightarrow> error + frame" where
  "sorted_selection processed_scores pair =
     (case loc_columns processed_scores [fst pair, snd pair] of
        Inl e \<Rightarrow> Inl e
      | Inr selected \<Rightarrow> sort_values (fst pair) selected)"

text \<open>
  Lines 86-87: \<^verbatim>\<open>data_sorted.loc[:, label].to_numpy()\<close>, the values of the one column
  with that label. A label carried by several columns would give a two-dimensional array,
  with which line 106 cannot build a Series; the model raises that ValueError here.
\<close>

definition column_values :: "frame \<Rightarrow> string \<Rightarrow> error + real list" where
  "column_values df label =
     (case filter (\<lambda>c. fst c = label) (columns df) of
        [] \<Rightarrow> Inl (KeyError [label])
      | [c] \<Rightarrow> Inr (snd c)
      | _ \<Rightarrow> Inl (ValueError ''Data must be 1-dimensional''))"

text \<open>Lines 90-95: the spline routine chosen by \<^verbatim>\<open>spline_type\<close>; line 77-78 for \<^verbatim>\<open>dof\<close>.\<close>

definition dof_argument :: "int option \<Rightarrow> int option" where
  "dof_argument d = (case d of None \<Rightarrow> None | Some k \<Rightarrow> if k = 0 then None else Some k)"

definition fit_spline :: "env \<Rightarrow> args \<Rightarrow> real list \<Rightarrow> real list \<Rightarrow> error + real list" where
  "fit_spline e a x y =
     (if spline_type a = ''py-smooth'' then smooth_spline e x y
      else if spline_type a = ''cubic'' then R_cubic_spline e x y (degree a) (dof_argument (dof a))
      else R_smooth_spline e x y)"

text \<open>
  Lines 97-105: the maximum of every row of the sorted selection, over its columns.
  \<^verbatim>\<open>np.max\<close> over no column raises ValueError.
\<close>

definition row_values :: "frame \<Rightarrow> nat \<Rightarrow> real list" where
  "row_values df i = map (\<lambda>c. snd c ! i) (columns df)"

definition np_max :: "real list \<Rightarrow> error + real" where
  "np_max vs =
     (case vs of
        [] \<Rightarrow> Inl (ValueError ''zero-size array to reduction operation maximum'')
      | v # rest \<Rightarrow> Inr (fold max rest v))"

definition row_maxima :: "frame \<Rightarrow> error + real list" where
  "row_maxima df = mapE (\<lambda>i. np_max (row_values df i)) [0..<length (index df)]"

text \<open>
  Line 107: \<^verbatim>\<open>y - yfit\<close> on one-dimensional arrays: element by element for equal
  lengths, an array of one element is broadcast, any other two lengths raise ValueError.
  Lines 102-108: \<^verbatim>\<open>pd.Series(data, index)\<close> raises ValueError unless there is one value
  per index entry.
\<close>

definition np_subtract :: "real list \<Rightarrow> real list \<Rightarrow> error + real list" where
  "np_subtract y yfit =
     (if length y = length yfit then Inr (map (\<lambda>(a, b). a - b) (zip y yfit))
      else if length yfit = 1 then Inr (map (\<lambda>a. a - yfit ! 0) y)
      else if length y = 1 then Inr (map (\<lambda>b. y ! 0 - b) yfit)
      else Inl (ValueError ''operands could not be broadcast together''))"

definition make_series :: "real list \<Rightarrow> string list \<Rightarrow> error + series" where
  "make_series data idx =
     (if length data \<noteq> length idx
      then Inl (ValueError ''Length of values does not match length of index'')
      else Inr \<lparr>s_index = idx, s_data = data\<rparr>)"

text \<open>Line 131: \<^verbatim>\<open>table.loc[:, taxa_access]\<close> raises KeyError when the table has no such column.\<close>

definition table_column :: "table \<Rightarrow> string \<Rightarrow> error + string list" where
  "table_column tbl label =
     (case map_of tbl label of None \<Rightarrow> Inl (KeyError [label]) | Some cells \<Rightarrow> Inr cells)"

definition table_prefix :: "pair \<Rightarrow> string" where
  "table_prefix pair = fst pair @ ''~'' @ snd pair"

definition extend_spline :: "real list \<Rightarrow> real list \<Rightarrow> string \<Rightarrow> spline_data \<Rightarrow> spline_data" where
  "extend_spline x yfit label d =
     \<lparr>sp_x = sp_x d @ x, sp_y = sp_y d @ yfit, sp_pair = sp_pair d @ replicate (length x) label\<rparr>"

definition pair_step ::
  "env \<Rightarrow> args \<Rightarrow> string \<Rightarrow> frame \<Rightarrow> peptide_sets \<Rightarrow> pair \<Rightarrow> loop_state \<Rightarrow> loop_state comp" where
  "pair_step e a taxa_access processed_scores sets pair st =
     bindW (print_line (''Working on pair ('' @ fst pair @ '', '' @ snd pair @ '')...'')) (\<lambda>_.
     bindW (lift (sorted_selection processed_scores pair)) (\<lambda>data_sorted.
     bindW (lift (column_values data_sorted (fst pair))) (\<lambda>x.
     bindW (lift (column_values data_sorted (snd pair))) (\<lambda>y.
     bindW (lift (fit_spline e a x y)) (\<lambda>yfit.
     bindW (lift (row_maxima data_sorted)) (\<lambda>maxima.
     bindW (lift (make_series maxima (index data_sorted))) (\<lambda>maxZ_series.
     bindW (lift (np_subtract y yfit)) (\<lambda>delta.
     bindW (lift (make_series delta (index data_sorted))) (\<lambda>deltaZ_series.
     bindW (log_call (PseaCall
              \<lparr>maxZ = maxZ_series, deltaZ = deltaZ_series, a_peptide_sets = sets,
               a_species_taxa_file = species_taxa_file a, a_threshold = threshold a,
               a_permutation_num = permutation_num a, a_min_size = min_size a,
               a_max_size = max_size a\<rparr>)) (\<lambda>_.
     bindW (lift (psea e
              \<lparr>maxZ = maxZ_series, deltaZ = deltaZ_series, a_peptide_sets = sets,
               a_species_taxa_file = species_taxa_file a, a_threshold = threshold a,
               a_permutation_num = permutation_num a, a_min_size = min_size a,
               a_max_size = max_size a\<rparr>)) (\<lambda>tbl.
     bindW (write_file (table_dir a @ ''/'' @ table_prefix pair @ ''_psea_table.tsv'')
              (TableFile tbl)) (\<lambda>_.
     bindW (lift (table_column tbl taxa_access)) (\<lambda>taxa.
     ret \<lparr>titles = titles st @ [table_prefix pair],
          used_pairs = used_pairs st @ [pair],
          pair_spline_dict = extend_spline x yfit (table_prefix pair) (pair_spline_dict st)\<rparr>
     )))))))))))))"

text \<open>Line 82: \<^verbatim>\<open>for pair in pairs\<close>; the first exception ends the loop.\<close>

fun pair_loop :: "(pair \<Rightarrow> loop_state \<Rightarrow> loop_state comp) \<Rightarrow> pair list \<Rightarrow> loop_state \<Rightarrow> loop_state comp" where
  "pair_loop step [] st w = (w, Inr st)"
| "pair_loop step (pair # pairs) st w =
     (case step pair st w of
        (w', Inl e) \<Rightarrow> (w', Inl e)
      | (w', Inr st') \<Rightarrow> pair_loop step pairs st' w')"

subsection \<open>The temporary directory block (lines 66-168)\<close>

text \<open>Lines 73, 79-80: the name of the taxon column.\<close>

definition taxa_access_of :: "path \<Rightarrow> string" where
  "taxa_access_of species_file = (if species_file = [] then ''ID'' else ''species_name'')"

definition initial_state :: loop_state where
  "initial_state = \<lparr>titles = [], used_pairs = [], pair_spline_dict = \<lparr>sp_x = [], sp_y = [], sp_pair = []\<rparr>\<rparr>"

text \<open>
  Lines 139-141: \<^verbatim>\<open>pd.DataFrame(pair_spline_dict)\<close> raises ValueError unless the three
  lists have one length.
\<close>

definition spline_frame :: "spline_data \<Rightarrow> error + spline_data" where
  "spline_frame d =
     (if length (sp_x d) = length (sp_y d) \<and> length (sp_y d) = length (sp_pair d) then Inr d
      else Inl (ValueError ''All arrays must be of the same length''))"

text \<open>Lines 149, 160: \<^verbatim>\<open>plot, = action(...)\<close> unpacks a result of exactly one artifact.\<close>

definition unpack_one :: "artifact list \<Rightarrow> error + artifact" where
  "unpack_one rs = (case rs of [r] \<Rightarrow> Inr r | _ \<Rightarrow> Inl (ValueError ''cannot unpack''))"

definition call_action :: "action \<Rightarrow> action_args \<Rightarrow> artifact comp" where
  "call_action act kwargs =
     bindW (log_call (ActionCall kwargs)) (\<lambda>_.
     bindW (lift (act kwargs)) (\<lambda>results. lift (unpack_one results)))"

definition tempdir_block ::
  "env \<Rightarrow> args \<Rightarrow> action \<Rightarrow> action \<Rightarrow> pair list \<Rightarrow> frame \<Rightarrow> path \<Rightarrow> (artifact \<times> artifact) comp" where
  "tempdir_block e a volcano zscatter pairs processed processed_scores_file =
     bindW (write_file processed_scores_file (ScoresFile processed)) (\<lambda>_.
     bindW (lift (remove_peptides e processed (peptide_sets_file a))) (\<lambda>(processed_scores, sets).
     bindW (pair_loop (pair_step e a (taxa_access_of (species_taxa_file a)) processed_scores sets)
              pairs initial_state) (\<lambda>st.
     bindW (write_file (tempdir e @ ''/used_pairs.tsv'') (PairsFile (used_pairs st))) (\<lambda>_.
     bindW (lift (spline_frame (pair_spline_dict st))) (\<lambda>spline.
     bindW (write_file (tempdir e @ ''/spline_data.tsv'') (SplineFile spline)) (\<lambda>_.
     bindW (lift (make_artifact e ''FeatureTable[Zscore]'' processed_scores_file)) (\<lambda>processed_scores_art.
     bindW (call_action zscatter (ZscatterArgs
              \<lparr>zscores = processed_scores_art,
               z_pairs_file = tempdir e @ ''/used_pairs.tsv'',
               spline_file = tempdir e @ ''/spline_data.tsv'',
               p_val_access = ''p.adjust'',
               le_peps_access = ''core_enrichment'',
               z_taxa_access = taxa_access_of (species_taxa_file a),
               highlight_data = table_dir a,
               highlight_threshold = p_val_thresh a\<rparr>)) (\<lambda>scatter_plot.
     bindW (call_action volcano (VolcanoArgs
              \<lparr>xy_dir = table_dir a,
               xy_access = [''NES'', ''p.adjust''],
               v_taxa_access = taxa_access_of (species_taxa_file a),
               x_threshold = es_thresh a,
               y_threshold = p_val_thresh a,
               xy_labels = [''Enrichment score'', ''Adjusted p-values''],
               v_titles = titles st\<rparr>)) (\<lambda>volcano_plot.
     ret (scatter_plot, volcano_plot))))))))))"

text \<open>
  Line 66: \<^verbatim>\<open>with tempfile.TemporaryDirectory() as tempdir\<close> creates the directory,
  runs the block, and removes the directory with all it holds however the block ends.
\<close>

definition under :: "path \<Rightarrow> path \<Rightarrow> bool" where
  "under d p = (p = d \<or> take (Suc (length d)) p = d @ ''/'')"

definition cleanup :: "path \<Rightarrow> world \<Rightarrow> world" where
  "cleanup d w = w\<lparr>fs := (\<lambda>p. if under d p then None else fs w p)\<rparr>"

definition with_tempdir :: "path \<Rightarrow> 'a comp \<Rightarrow> 'a comp" where
  "with_tempdir d block w =
     (case block (w\<lparr>fs := (fs w)(d \<mapsto> Dir)\<rparr>) of (w', r) \<Rightarrow> (cleanup d w', r))"

subsection \<open>The whole action\<close>

text \<open>Lines 42-168, between the two readings of the timer.\<close>

definition make_psea_table_body :: "env \<Rightarrow> args \<Rightarrow> (artifact \<times> artifact) comp" where
  "make_psea_table_body e a =
     bindW (prepare e a) (\<lambda>(volcano, zscatter).
     bindW (read_pairs (pairs_file a)) (\<lambda>pairs.
     bindW (read_csv (scores_file a)) (\<lambda>scores.
     bindW (lift (process_scores scores pairs)) (\<lambda>processed_scores.
     with_tempdir (tempdir e)
       (tempdir_block e a volcano zscatter pairs processed_scores
          (transformed_name (scores_file a)))))))"

text \<open>
  Lines 40-174. Line 40 is \<^verbatim>\<open>start_time = time.perf_couter()\<close> and line 170 is
  \<^verbatim>\<open>end_time = time.perf_couter()\<close>, spelled so in the source.
\<close>

definition make_psea_table :: "env \<Rightarrow> args \<Rightarrow> (artifact \<times> artifact) comp" where
  "make_psea_table e a =
     bindW (lift (time_call ''perf_couter'' (clock e 0))) (\<lambda>start_time.
     bindW (make_psea_table_body e a) (\<lambda>plots.
     bindW (lift (time_call ''perf_couter'' (clock e 1))) (\<lambda>end_time.
     bindW (print_line (''Finished in '' @ show_rounded e (end_time - start_time) @ '' seconds''))
       (\<lambda>_. ret plots))))"

subsection \<open>Predicates of the claims and concrete inputs\<close>

text \<open>A frame is rectangular, as every pandas frame is: each column has one value per row.\<close>

definition rectangular :: "frame \<Rightarrow> bool" where
  "rectangular df = list_all (\<lambda>c. length (snd c) = length (index df)) (columns df)"

text \<open>
  The last sentence of the property of the spline record, as the specification words it:
  a row's label "matches \<open>{baseline}~{treatment}\<close> for exactly one processed pair".
\<close>

definition matches_exactly_one_pair :: "pair list \<Rightarrow> string \<Rightarrow> bool" where
  "matches_exactly_one_pair processed label =
     (length (filter (\<lambda>p. table_prefix p = label) (remdups processed)) = 1)"

definition is_psea_call :: "call \<Rightarrow> bool" where
  "is_psea_call c = (case c of PseaCall _ \<Rightarrow> True | ActionCall _ \<Rightarrow> False)"

text \<open>
  Collaborators for concrete runs: every lookup and call succeeds, the fitted curve is the
  diagonal \<open>yfit = x\<close>, the enrichment engine returns one row, and the peptide filter keeps
  the matrix as it is.
\<close>

definition demo_action :: "string \<Rightarrow> action" where
  "demo_action name kwargs = Inr [Artifact name]"

definition demo_table :: table where
  "demo_table =
     [(''ID'', [''set1'']), (''NES'', [''1.5'']), (''p.adjust'', [''0.01'']),
      (''core_enrichment'', [''pep1/pep2''])]"

definition demo_env :: env where
  "demo_env =
     \<lparr>get_action = (\<lambda>plugin name. Inr (demo_action name)),
      make_artifact = (\<lambda>semantic_type view. Inr (Artifact view)),
      remove_peptides = (\<lambda>df sets_file. Inr (df, [(''set1'', [''pep1'', ''pep2''])])),
      smooth_spline = (\<lambda>x y. Inr x),
      R_cubic_spline = (\<lambda>x y d k. Inr x),
      R_smooth_spline = (\<lambda>x y. Inr x),
      psea = (\<lambda>kwargs. Inr demo_table),
      tempdir = ''/tmp/tmpq2psea'',
      clock = (\<lambda>k. real k),
      show_rounded = (\<lambda>seconds. ''1.0'')\<rparr>"

definition demo_args :: args where
  "demo_args =
     \<lparr>scores_file = ''data/scores.tsv'', pairs_file = ''pairs.tsv'',
      peptide_sets_file = ''sets.gmt'', threshold = 3 / 4, p_val_thresh = 1 / 20,
      es_thresh = 2 / 5, species_taxa_file = [], min_size = 15, max_size = 2000,
      permutation_num = 10000, spline_type = ''r-smooth'', degree = 3, dof = None,
      table_dir = ''./psea_table_outdir'', pepsirf_binary = ''pepsirf''\<rparr>"

definition demo_world :: "pair list \<Rightarrow> world" where
  "demo_world pairs =
     \<lparr>fs = [''data/scores.tsv'' \<mapsto> ScoresFile demo_scores, ''pairs.tsv'' \<mapsto> PairsFile pairs],
      stdout = [], calls = []\<rparr>"

text \<open>A processed matrix of two features whose replicate names contain the tilde.\<close>

definition tilde_scores :: frame where
  "tilde_scores =
     \<lparr>index = [''pep1'', ''pep2''],
      columns = [(''A~B'', [1, 0]), (''C'', [0, 2]), (''A'', [0, 1]), (''B~C'', [3, 0])]\<rparr>"

definition small_scores :: frame where
  "small_scores = \<lparr>index = [''pep1'', ''pep2''], columns = [(''A'', [1, 0]), (''B'', [0, 2])]\<rparr>"

section \<open>Properties of \<^verbatim>\<open>process_scores\<close>\<close>

lemma power_val_eq: "power_val = 8"
  by (simp add: power_val_def base_def offset_def)

lemma set_collect_reps: "set (collect_reps pairs) = fst ` set pairs \<union> snd ` set pairs"
  by (induction pairs rule: collect_reps.induct) auto

lemma set_np_unique: "set (np_unique xs) = set xs"
  by (simp add: np_unique_def)

lemma sorted_np_unique: "sorted (np_unique xs)"
  by (simp add: np_unique_def sorted_remdups_adj)

lemma distinct_remdups_adj_sorted: "sorted xs \<Longrightarrow> distinct (remdups_adj xs)"
  by (induction xs rule: remdups_adj.induct) (auto split: if_splits)

lemma distinct_np_unique: "distinct (np_unique xs)"
  by (simp add: np_unique_def distinct_remdups_adj_sorted)

lemma np_unique_sorted_list: "np_unique xs = sorted_list_of_set (set xs)"
proof -
  have "sorted_list_of_set (set (np_unique xs)) = np_unique xs"
    by (rule sorted_list_of_set.idem_if_sorted_distinct)
       (simp_all add: sorted_np_unique distinct_np_unique)
  then show ?thesis by (simp add: set_np_unique)
qed

lemma mapE_total: "(\<And>x. x \<in> set xs \<Longrightarrow> f x = Inr (g x)) \<Longrightarrow> mapE f xs = Inr (map g xs)"
  by (induction xs) simp_all

lemma log_value_ge_one: "1 \<le> v \<Longrightarrow> log_value v = Inr (log 2 v - 3)"
  by (simp add: log_value_def py_log_def base_def offset_def log_def)

lemma clamp_is_max: "(if power_val + v < 1 then 1 else power_val + v) = max 1 (v + 8)"
  by (simp add: power_val_eq max_def add.commute)

lemma log_value_clamped:
  "log_value (if power_val + v < 1 then 1 else power_val + v) = Inr (spec_transform v)"
  unfolding clamp_is_max spec_transform_def by (rule log_value_ge_one) simp

lemma log_column_clamped:
  "log_column (n, map (\<lambda>v. if power_val + v < 1 then 1 else power_val + v) vs)
     = Inr (n, map spec_transform vs)"
proof -
  have "mapE log_value (map (\<lambda>v. if power_val + v < 1 then 1 else power_val + v) vs)
      = Inr (map spec_transform vs)"
    by (induction vs) (simp_all add: log_value_clamped)
  then show ?thesis
    by (simp add: log_column_def)
qed

lemma log_scores_clamped:
  "log_scores (clamp_scores (add_power df)) = Inr (apply_columns spec_transform df)"
proof -
  have "mapE log_column
          (map (\<lambda>c. (fst c, map (\<lambda>v. if power_val + v < 1 then 1 else power_val + v) (snd c))) cs)
      = Inr (map (\<lambda>c. (fst c, map spec_transform (snd c))) cs)" for cs
    by (induction cs) (simp_all add: log_column_clamped)
  then show ?thesis
    by (simp add: log_scores_def clamp_scores_def add_power_def apply_columns_def comp_def)
qed

lemma loc_columns_present:
  "set labels \<subseteq> set (column_labels df) \<Longrightarrow>
     loc_columns df labels = Inr (df\<lparr>columns := select_columns df labels\<rparr>)"
  by (auto simp: loc_columns_def Let_def filter_empty_conv)

lemma loc_columns_missing:
  "\<not> set labels \<subseteq> set (column_labels df) \<Longrightarrow>
     loc_columns df labels = Inl (KeyError (filter (\<lambda>l. l \<notin> set (column_labels df)) labels))"
  by (auto simp: loc_columns_def Let_def filter_empty_conv)

lemma labels_select_columns:
  "set labels \<subseteq> fst ` set cs \<Longrightarrow>
     set (map fst (concat (map (\<lambda>l. filter (\<lambda>c. fst c = l) cs) labels))) = set labels"
  by (induction labels) (auto simp: image_iff)

lemma filter_label_distinct:
  "distinct (map fst cs) \<Longrightarrow> l \<in> fst ` set cs \<Longrightarrow> map fst (filter (\<lambda>c. fst c = l) cs) = [l]"
  by (induction cs) (auto simp: filter_empty_conv image_iff)

lemma labels_select_columns_distinct:
  "distinct (map fst cs) \<Longrightarrow> set labels \<subseteq> fst ` set cs \<Longrightarrow>
     map fst (concat (map (\<lambda>l. filter (\<lambda>c. fst c = l) cs) labels)) = labels"
  by (induction labels) (simp_all add: filter_label_distinct)

lemma column_labels_apply: "column_labels (apply_columns f df) = column_labels df"
  by (simp add: column_labels_def apply_columns_def comp_def)

lemma process_scores_Inr:
  "process_scores scores pairs = Inr m \<Longrightarrow>
     set (collect_reps pairs) \<subseteq> set (column_labels scores) \<and>
     m = apply_columns spec_transform
           (scores\<lparr>columns := select_columns scores (np_unique (collect_reps pairs))\<rparr>)"
proof -
  assume a: "process_scores scores pairs = Inr m"
  show ?thesis
  proof (cases "set (np_unique (collect_reps pairs)) \<subseteq> set (column_labels scores)")
    case True
    with a show ?thesis
      by (simp add: process_scores_def loc_columns_present log_scores_clamped set_np_unique)
  next
    case False
    with a show ?thesis
      by (simp add: process_scores_def loc_columns_missing)
  qed
qed

lemma process_scores_present:
  "set (collect_reps pairs) \<subseteq> set (column_labels scores) \<Longrightarrow>
     process_scores scores pairs =
       Inr (apply_columns spec_transform
              (scores\<lparr>columns := select_columns scores (np_unique (collect_reps pairs))\<rparr>))"
  by (simp add: process_scores_def loc_columns_present log_scores_clamped set_np_unique)

lemma log2_8: "log 2 8 = 3"
proof -
  have "log 2 (2 ^ 3) = 3" by (subst log_nat_power) simp_all
  then show ?thesis by simp
qed

lemma log2_16: "log 2 16 = 4"
proof -
  have "log 2 (2 ^ 4) = 4" by (subst log_nat_power) simp_all
  then show ?thesis by simp
qed

text \<open>
  Claim C1. When every replicate mentioned in the pair list is a column of the score
  matrix, \<^verbatim>\<open>process_scores\<close> returns the matrix restricted to the referenced
  replicate columns (the sorted, de-duplicated replicate names) with every value \<open>v\<close>
  replaced by \<open>log2(max(1, v + 8)) - 3\<close>. The statement covers every real \<open>v\<close>: below
  \<open>-7\<close> the result is \<open>-3\<close>, and there is no upper limit.
\<close>

theorem process_scores_transform:
  assumes "fst ` set pairs \<union> snd ` set pairs \<subseteq> set (column_labels scores)"
  shows "\<exists>restricted.
           loc_columns scores (sorted_list_of_set (fst ` set pairs \<union> snd ` set pairs)) = Inr restricted \<and>
           process_scores scores pairs = Inr (apply_columns spec_transform restricted)"
proof -
  have eq: "np_unique (collect_reps pairs) = sorted_list_of_set (fst ` set pairs \<union> snd ` set pairs)"
    by (simp add: np_unique_sorted_list set_collect_reps)
  have sub: "set (np_unique (collect_reps pairs)) \<subseteq> set (column_labels scores)"
    using assms by (simp add: set_np_unique set_collect_reps)
  have "process_scores scores pairs =
      Inr (apply_columns spec_transform (scores\<lparr>columns := select_columns scores (np_unique (collect_reps pairs))\<rparr>))"
    using sub by (simp add: process_scores_def loc_columns_present log_scores_clamped)
  moreover have "loc_columns scores (np_unique (collect_reps pairs)) =
      Inr (scores\<lparr>columns := select_columns scores (np_unique (collect_reps pairs))\<rparr>)"
    using sub by (rule loc_columns_present)
  ultimately show ?thesis
    unfolding eq by blast
qed

theorem process_scores_transform_witness:
  "process_scores demo_scores [(''B'', ''A''), (''A'', ''B'')] =
     Inr \<lparr>index = [''pep1'', ''pep2'', ''pep3''],
          columns = [(''A'', [0, -3, 1]), (''B'', [1, 0, -3])]\<rparr>"
proof -
  let ?ps = "[(''B'', ''A''), (''A'', ''B'')]"
  have "np_unique (collect_reps ?ps) = [''A'', ''B'']"
    by (simp add: np_unique_def)
  then have labels: "sorted_list_of_set (fst ` set ?ps \<union> snd ` set ?ps) = [''A'', ''B'']"
    by (simp only: np_unique_sorted_list set_collect_reps)
  have present: "fst ` set ?ps \<union> snd ` set ?ps \<subseteq> set (column_labels demo_scores)"
    by (simp add: demo_scores_def column_labels_def)
  from process_scores_transform [OF present] obtain restricted where
    r: "loc_columns demo_scores (sorted_list_of_set (fst ` set ?ps \<union> snd ` set ?ps)) = Inr restricted"
    and p: "process_scores demo_scores ?ps = Inr (apply_columns spec_transform restricted)"
    by blast
  from r have "restricted = \<lparr>index = [''pep1'', ''pep2'', ''pep3''],
      columns = [(''A'', [0, -9, 8]), (''B'', [8, 0, -20])]\<rparr>"
    unfolding labels
    by (simp add: loc_columns_def select_columns_def column_labels_def demo_scores_def)
  with p show ?thesis
    by (simp add: apply_columns_def spec_transform_def log2_8 log2_16)
qed

text \<open>
  Claim C4. The matrix returned by \<^verbatim>\<open>process_scores\<close> has as its set of column
  labels exactly the replicate names mentioned in the pair list, whatever the order of
  the pairs and however often a replicate is mentioned; when the labels of the input
  matrix are unique, the labels of the result are those names once each, in sorted
  order.
\<close>

theorem process_scores_columns:
  assumes "process_scores scores pairs = Inr m"
  shows "set (column_labels m) = fst ` set pairs \<union> snd ` set pairs \<and>
         (distinct (column_labels scores) \<longrightarrow>
            column_labels m = sorted_list_of_set (fst ` set pairs \<union> snd ` set pairs))"
proof -
  from process_scores_Inr [OF assms]
  have sub: "set (collect_reps pairs) \<subseteq> set (column_labels scores)"
    and m: "m = apply_columns spec_transform
           (scores\<lparr>columns := select_columns scores (np_unique (collect_reps pairs))\<rparr>)"
    by simp_all
  have sub': "set (np_unique (collect_reps pairs)) \<subseteq> fst ` set (columns scores)"
    using sub by (simp add: set_np_unique column_labels_def)
  have lab: "column_labels m = map fst (select_columns scores (np_unique (collect_reps pairs)))"
    by (simp add: m column_labels_apply) (simp add: column_labels_def)
  have "set (column_labels m) = set (np_unique (collect_reps pairs))"
    unfolding lab select_columns_def by (rule labels_select_columns [OF sub'])
  moreover have "column_labels m = np_unique (collect_reps pairs)"
    if "distinct (column_labels scores)"
    unfolding lab select_columns_def
    using that sub' by (intro labels_select_columns_distinct) (simp_all add: column_labels_def)
  ultimately show ?thesis
    by (simp add: set_np_unique set_collect_reps np_unique_sorted_list)
qed

theorem process_scores_columns_witness:
  "\<exists>m. process_scores demo_scores [(''C'', ''A''), (''A'', ''C''), (''C'', ''A'')] = Inr m \<and>
       distinct (column_labels demo_scores) \<and> column_labels m = [''A'', ''C'']"
proof -
  let ?ps = "[(''C'', ''A''), (''A'', ''C''), (''C'', ''A'')]"
  have "np_unique (collect_reps ?ps) = [''A'', ''C'']"
    by (simp add: np_unique_def)
  then have labels: "sorted_list_of_set (fst ` set ?ps \<union> snd ` set ?ps) = [''A'', ''C'']"
    by (simp only: np_unique_sorted_list set_collect_reps)
  have d: "distinct (column_labels demo_scores)"
    by (simp add: demo_scores_def column_labels_def)
  have "set (collect_reps ?ps) \<subseteq> set (column_labels demo_scores)"
    by (simp add: demo_scores_def column_labels_def)
  from process_scores_present [OF this] obtain m where m: "process_scores demo_scores ?ps = Inr m"
    by blast
  from process_scores_columns [OF m] d have "column_labels m = [''A'', ''C'']"
    unfolding labels by blast
  with m d show ?thesis by blast
qed

text \<open>
  Claim C5. When some pair mentions a replicate that is no column of the score matrix,
  \<^verbatim>\<open>process_scores\<close> fails with the KeyError of the column selection of line 193,
  unchanged: the error of \<^verbatim>\<open>scores.loc[:, reps_list]\<close> is the error of the call, and it
  lists the replicate names that are absent.
\<close>

theorem process_scores_missing_replicate:
  assumes "(b, t) \<in> set pairs"
    and "b \<notin> set (column_labels scores) \<or> t \<notin> set (column_labels scores)"
  shows "\<exists>missing. missing \<noteq> [] \<and>
           set missing = (fst ` set pairs \<union> snd ` set pairs) - set (column_labels scores) \<and>
           loc_columns scores (np_unique (collect_reps pairs)) = Inl (KeyError missing) \<and>
           process_scores scores pairs = Inl (KeyError missing)"
proof -
  let ?reps = "np_unique (collect_reps pairs)"
  let ?missing = "filter (\<lambda>l. l \<notin> set (column_labels scores)) ?reps"
  have in_reps: "b \<in> set ?reps" "t \<in> set ?reps"
    using assms(1) by (force simp: set_np_unique set_collect_reps)+
  with assms(2) have nsub: "\<not> set ?reps \<subseteq> set (column_labels scores)"
    by blast
  then have loc: "loc_columns scores ?reps = Inl (KeyError ?missing)"
    by (rule loc_columns_missing)
  moreover have "?missing \<noteq> []"
    using nsub by (auto simp: filter_empty_conv)
  moreover have "set ?missing = (fst ` set pairs \<union> snd ` set pairs) - set (column_labels scores)"
    by (auto simp: set_np_unique set_collect_reps)
  moreover have "process_scores scores pairs = Inl (KeyError ?missing)"
    by (simp add: process_scores_def loc)
  ultimately show ?thesis by blast
qed

theorem process_scores_missing_replicate_witness:
  "process_scores demo_scores [(''A'', ''B''), (''A'', ''Z'')] = Inl (KeyError [''Z''])"
  using process_scores_missing_replicate [of "''A''" "''Z''" "[(''A'', ''B''), (''A'', ''Z'')]" demo_scores]
  by (simp add: demo_scores_def column_labels_def loc_columns_def np_unique_def)

lemma all_values_clamped: "all_values (\<lambda>v. 1 \<le> v) (clamp_scores df)"
  by (auto simp: all_values_def clamp_scores_def apply_columns_def list_all_iff)

lemma spec_transform_lower: "- 3 \<le> spec_transform v"
proof -
  have "0 \<le> log 2 (max 1 (v + 8))"
    by (subst zero_le_log_cancel_iff) simp_all
  then show ?thesis by (simp add: spec_transform_def)
qed

lemma all_values_transformed: "all_values (\<lambda>v. - 3 \<le> v) (apply_columns spec_transform df)"
  by (simp add: all_values_def apply_columns_def list_all_iff spec_transform_lower)

text \<open>
  Claim C10. After the offset and the clamp every value is at least 1, so the logarithm
  pass never raises: it returns a matrix for every real input, and every value of that
  matrix is at least \<open>-3\<close>. Hence the only error \<^verbatim>\<open>process_scores\<close> can end with is
  the KeyError of the column selection, and every matrix it returns has all values at
  least \<open>-3\<close>.
\<close>

theorem log_input_at_least_one:
  "all_values (\<lambda>v. 1 \<le> v) (clamp_scores (add_power df)) \<and>
   (\<exists>m. log_scores (clamp_scores (add_power df)) = Inr m \<and> all_values (\<lambda>v. - 3 \<le> v) m) \<and>
   (case process_scores scores pairs of
      Inl e \<Rightarrow> \<exists>missing. e = KeyError missing
    | Inr m \<Rightarrow> all_values (\<lambda>v. - 3 \<le> v) m)"
proof -
  have "case process_scores scores pairs of
      Inl e \<Rightarrow> \<exists>missing. e = KeyError missing
    | Inr m \<Rightarrow> all_values (\<lambda>v. - 3 \<le> v) m"
  proof (cases "set (np_unique (collect_reps pairs)) \<subseteq> set (column_labels scores)")
    case True
    then show ?thesis
      by (simp add: process_scores_def loc_columns_present log_scores_clamped all_values_transformed)
  next
    case False
    then show ?thesis
      by (simp add: process_scores_def loc_columns_missing)
  qed
  then show ?thesis
    by (simp add: all_values_clamped log_scores_clamped all_values_transformed)
qed

section \<open>Properties of \<^verbatim>\<open>make_psea_table\<close>\<close>

lemma bindW_Inr_iff:
  "bindW m f w = (w', Inr r) \<longleftrightarrow> (\<exists>w1 x. m w = (w1, Inr x) \<and> f x w1 = (w', Inr r))"
  by (auto simp: bindW_def split: prod.splits sum.splits)

lemma lift_Inr_iff: "lift r w = (w', Inr x) \<longleftrightarrow> w' = w \<and> r = Inr x"
  by (auto simp: lift_def)

lemma ret_iff: "ret x w = (w', r) \<longleftrightarrow> w' = w \<and> r = Inr x"
  by (auto simp: ret_def)

lemma print_line_Inr_iff: "print_line s w = (w', Inr u) \<longleftrightarrow> w' = w\<lparr>stdout := stdout w @ [s]\<rparr>"
  by (auto simp: print_line_def)

lemma write_file_Inr_iff: "write_file p n w = (w', Inr u) \<longleftrightarrow> w' = w\<lparr>fs := (fs w)(p \<mapsto> n)\<rparr>"
  by (auto simp: write_file_def)

lemma log_call_Inr_iff: "log_call c w = (w', Inr u) \<longleftrightarrow> w' = w\<lparr>calls := calls w @ [c]\<rparr>"
  by (auto simp: log_call_def)

lemmas comp_Inr_iffs =
  bindW_Inr_iff lift_Inr_iff ret_iff print_line_Inr_iff write_file_Inr_iff log_call_Inr_iff

lemma time_call_perf_couter: "time_call ''perf_couter'' r = Inl (AttributeError ''time'' ''perf_couter'')"
  by (simp add: time_call_def time_module_def)

lemma bindW_lift_Inl: "bindW (lift (Inl err)) k w = (w, Inl err)"
  by (simp add: bindW_def lift_def)

text \<open>
  Claim C2. The name \<^verbatim>\<open>perf_couter\<close> is no attribute of the module \<^verbatim>\<open>time\<close>, so the
  timing call raises AttributeError whatever the reading would be. Every call of
  \<^verbatim>\<open>make_psea_table\<close>, whatever its arguments, collaborators and file system, ends with
  that error at line 40, leaving the world as it found it: nothing is printed, so the
  elapsed-time line never appears. The same call at line 170 raises the same error in
  any world, whatever would follow it.
\<close>

theorem make_psea_table_attribute_error:
  "time_call ''perf_couter'' reading = Inl (AttributeError ''time'' ''perf_couter'') \<and>
   make_psea_table e a w = (w, Inl (AttributeError ''time'' ''perf_couter'')) \<and>
   bindW (lift (time_call ''perf_couter'' (clock e 1))) k w' =
     (w', Inl (AttributeError ''time'' ''perf_couter''))"
  by (simp add: make_psea_table_def time_call_perf_couter bindW_lift_Inl)

lemma prepare_invalid_spline_type:
  assumes "get_action e ''ps-plot'' ''volcano'' = Inr v" "get_action e ''ps-plot'' ''zscatter'' = Inr z"
    and "spline_type a \<notin> set SPLINE_TYPES"
  shows "prepare e a w =
    (w, Inl (AssertionError (quoted (spline_type a) @ '' is not a valid spline method!'')))"
  using assms by (simp add: prepare_def bindW_def lift_def)

lemma prepare_existing_table_dir:
  assumes "get_action e ''ps-plot'' ''volcano'' = Inr v" "get_action e ''ps-plot'' ''zscatter'' = Inr z"
    and "spline_type a \<in> set SPLINE_TYPES" and "fs w (table_dir a) \<noteq> None"
  shows "prepare e a w =
    (w, Inl (AssertionError
       (quoted (table_dir a) @ '' already exists! Please move or remove this directory.'')))"
  using assms by (simp add: prepare_def bindW_def lift_def)

text \<open>
  Claim C3. A call with the unsupported spline type "linear" does not end with the
  validation error: it ends with the AttributeError of line 40, before the assertions of
  lines 45-48 are reached. The assertions themselves (\<open>prepare\<close>, lines 42-50) do reject
  the value with an AssertionError that names it and leave the file system unchanged.
\<close>

theorem make_psea_table_unsupported_spline_type:
  "make_psea_table demo_env (demo_args\<lparr>spline_type := ''linear''\<rparr>) (demo_world [(''A'', ''B'')]) =
     (demo_world [(''A'', ''B'')], Inl (AttributeError ''time'' ''perf_couter'')) \<and>
   prepare demo_env (demo_args\<lparr>spline_type := ''linear''\<rparr>) (demo_world [(''A'', ''B'')]) =
     (demo_world [(''A'', ''B'')],
      Inl (AssertionError (quoted ''linear'' @ '' is not a valid spline method!'')))"
  by (simp add: make_psea_table_def time_call_perf_couter bindW_lift_Inl
      prepare_invalid_spline_type demo_env_def demo_args_def SPLINE_TYPES_def)

lemma pair_step_Inr:
  assumes "pair_step e a ta ps sets pair st w = (w', Inr st')"
  obtains data_sorted x y yfit maxima maxZs delta deltaZs tbl taxa where
    "sorted_selection ps pair = Inr data_sorted"
    "column_values data_sorted (fst pair) = Inr x"
    "column_values data_sorted (snd pair) = Inr y"
    "fit_spline e a x y = Inr yfit"
    "row_maxima data_sorted = Inr maxima"
    "make_series maxima (index data_sorted) = Inr maxZs"
    "np_subtract y yfit = Inr delta"
    "make_series delta (index data_sorted) = Inr deltaZs"
    "psea e \<lparr>maxZ = maxZs, deltaZ = deltaZs, a_peptide_sets = sets,
               a_species_taxa_file = species_taxa_file a, a_threshold = threshold a,
               a_permutation_num = permutation_num a, a_min_size = min_size a,
               a_max_size = max_size a\<rparr> = Inr tbl"
    "table_column tbl ta = Inr taxa"
    "calls w' = calls w @ [PseaCall \<lparr>maxZ = maxZs, deltaZ = deltaZs, a_peptide_sets = sets,
               a_species_taxa_file = species_taxa_file a, a_threshold = threshold a,
               a_permutation_num = permutation_num a, a_min_size = min_size a,
               a_max_size = max_size a\<rparr>]"
    "fs w' = (fs w)(table_dir a @ ''/'' @ table_prefix pair @ ''_psea_table.tsv'' \<mapsto> TableFile tbl)"
    "st' = \<lparr>titles = titles st @ [table_prefix pair],
          used_pairs = used_pairs st @ [pair],
          pair_spline_dict = extend_spline x yfit (table_prefix pair) (pair_spline_dict st)\<rparr>"
proof -
  from assms show ?thesis
    unfolding pair_step_def comp_Inr_iffs
    apply (elim exE conjE)
    apply hypsubst
    apply (rule that)
                apply assumption+
      apply simp_all
    done
qed

lemma mset_argsort: "mset (argsort keys) = mset [0..<length keys]"
proof -
  have "map snd (zip keys [0..<length keys]) = [0..<length keys]"
    by (simp add: map_snd_zip)
  then have "mset (map snd (zip keys [0..<length keys])) = mset [0..<length keys]"
    by (simp only:)
  moreover have "mset (map snd (sort_key fst (zip keys [0..<length keys])))
      = mset (map snd (zip keys [0..<length keys]))"
    by (simp only: mset_map mset_sort)
  ultimately show ?thesis by (simp only: argsort_def)
qed

lemma length_argsort: "length (argsort keys) = length keys"
  by (simp add: argsort_def)

lemma take_argsort_values: "map (\<lambda>i. keys ! i) (argsort keys) = map fst (sort_key fst (zip keys [0..<length keys]))"
proof -
  have "keys ! snd p = fst p" if "p \<in> set (zip keys [0..<length keys])" for p
    using that by (auto simp: in_set_zip)
  then show ?thesis
    by (simp add: argsort_def)
qed

lemma sorted_argsort: "sorted (map (\<lambda>i. keys ! i) (argsort keys))"
  unfolding take_argsort_values by (rule sorted_sort_key)

lemma mset_take_argsort:
  assumes "length keys = length xs"
  shows "mset (map (\<lambda>i. xs ! i) (argsort keys)) = mset xs"
proof -
  have "mset (map (\<lambda>i. xs ! i) (argsort keys)) = image_mset (\<lambda>i. xs ! i) (mset (argsort keys))"
    by simp
  also have "\<dots> = image_mset (\<lambda>i. xs ! i) (mset [0..<length xs])"
    by (simp add: mset_argsort assms)
  also have "\<dots> = mset (map (\<lambda>i. xs ! i) [0..<length xs])"
    by simp
  also have "\<dots> = mset xs"
    by (simp add: map_nth)
  finally show ?thesis .
qed

lemma mapE_Inr_nth:
  "mapE f xs = Inr ys \<Longrightarrow> length ys = length xs \<and> (\<forall>i<length xs. f (xs ! i) = Inr (ys ! i))"
proof (induction xs arbitrary: ys)
  case Nil
  then show ?case by simp
next
  case (Cons x xs)
  then show ?case
    by (auto split: sum.splits simp: nth_Cons split: nat.splits)
qed

lemma row_maxima_Inr:
  assumes "row_maxima df = Inr maxima"
  shows "length maxima = length (index df)"
    and "i < length (index df) \<Longrightarrow> np_max (row_values df i) = Inr (maxima ! i)"
  using mapE_Inr_nth [OF assms [unfolded row_maxima_def]] by simp_all

lemma make_series_Inr:
  "make_series data idx = Inr s \<Longrightarrow> s_index s = idx \<and> s_data s = data \<and> length data = length idx"
  by (auto simp: make_series_def split: if_splits)

lemma sort_values_Inr:
  assumes "sort_values by df = Inr ds"
  obtains c where "filter (\<lambda>c. fst c = by) (columns df) = [c]"
    and "ds = take_rows (argsort (snd c)) df"
  using assms unfolding sort_values_def
  by (auto split: list.splits)

lemma loc_columns_Inr:
  "loc_columns df labels = Inr sel \<Longrightarrow>
     sel = df\<lparr>columns := select_columns df labels\<rparr> \<and> set labels \<subseteq> set (column_labels df)"
  by (auto simp: loc_columns_def Let_def filter_empty_conv split: if_splits)

lemma sorted_selection_Inr:
  assumes "sorted_selection ps pair = Inr ds"
  obtains c where
    "filter (\<lambda>c. fst c = fst pair) (select_columns ps [fst pair, snd pair]) = [c]"
    "ds = take_rows (argsort (snd c)) (ps\<lparr>columns := select_columns ps [fst pair, snd pair]\<rparr>)"
    "c \<in> set (columns ps)" "fst c = fst pair"
    "fst pair \<in> set (column_labels ps)" "snd pair \<in> set (column_labels ps)"
proof -
  from assms obtain sel where sel: "loc_columns ps [fst pair, snd pair] = Inr sel"
    and sv: "sort_values (fst pair) sel = Inr ds"
    by (auto simp: sorted_selection_def split: sum.splits)
  from loc_columns_Inr [OF sel]
  have sel_eq: "sel = ps\<lparr>columns := select_columns ps [fst pair, snd pair]\<rparr>"
    and present: "fst pair \<in> set (column_labels ps)" "snd pair \<in> set (column_labels ps)"
    by simp_all
  from sv obtain c where c: "filter (\<lambda>c. fst c = fst pair) (columns sel) = [c]"
    and ds: "ds = take_rows (argsort (snd c)) sel"
    by (rule sort_values_Inr)
  have "c \<in> set (filter (\<lambda>c. fst c = fst pair) (columns sel))"
    by (simp add: c)
  then have "c \<in> set (columns ps)" "fst c = fst pair"
    by (auto simp: sel_eq select_columns_def)
  with c ds present show ?thesis
    by (intro that [of c]) (simp_all add: sel_eq)
qed

lemma filter_take_rows:
  "filter (\<lambda>c. fst c = l) (columns (take_rows order df)) =
     map (\<lambda>c. (fst c, map (\<lambda>i. snd c ! i) order)) (filter (\<lambda>c. fst c = l) (columns df))"
  by (simp add: take_rows_def filter_map comp_def)

lemma column_values_Inr:
  "column_values df l = Inr v \<Longrightarrow> \<exists>c. filter (\<lambda>c. fst c = l) (columns df) = [c] \<and> v = snd c"
  by (auto simp: column_values_def split: list.splits)

lemma baseline_values_sorted:
  assumes "sorted_selection ps pair = Inr ds" and "column_values ds (fst pair) = Inr x"
  shows "sorted x \<and> length x = length (index ds)"
proof -
  from assms(1) obtain c where
    c: "filter (\<lambda>c. fst c = fst pair) (select_columns ps [fst pair, snd pair]) = [c]"
    and ds: "ds = take_rows (argsort (snd c)) (ps\<lparr>columns := select_columns ps [fst pair, snd pair]\<rparr>)"
    by (rule sorted_selection_Inr)
  have "filter (\<lambda>c. fst c = fst pair) (columns ds) = [(fst c, map (\<lambda>i. snd c ! i) (argsort (snd c)))]"
    unfolding ds filter_take_rows by (simp add: c)
  with column_values_Inr [OF assms(2)] have x: "x = map (\<lambda>i. snd c ! i) (argsort (snd c))"
    by auto
  have "length (index ds) = length (argsort (snd c))"
    by (simp add: ds take_rows_def)
  then show ?thesis
    unfolding x by (simp add: sorted_argsort)
qed

lemma sorted_index_permutation:
  assumes "sorted_selection ps pair = Inr ds" and "rectangular ps"
  shows "mset (index ds) = mset (index ps)"
proof -
  from assms(1) obtain c where
    ds: "ds = take_rows (argsort (snd c)) (ps\<lparr>columns := select_columns ps [fst pair, snd pair]\<rparr>)"
    and c: "c \<in> set (columns ps)"
    by (rule sorted_selection_Inr)
  from assms(2) c have "length (snd c) = length (index ps)"
    by (auto simp: rectangular_def list_all_iff)
  then have "mset (map (\<lambda>i. index ps ! i) (argsort (snd c))) = mset (index ps)"
    by (rule mset_take_argsort)
  then show ?thesis
    by (simp add: ds take_rows_def)
qed

lemma unique_filter:
  "distinct (map fst cs) \<Longrightarrow> l \<in> fst ` set cs \<Longrightarrow> \<exists>v. filter (\<lambda>c. fst c = l) cs = [(l, v)]"
  by (induction cs) (auto simp: filter_empty_conv image_iff)

lemma sorted_selection_two_columns:
  assumes "distinct (column_labels ps)" and "sorted_selection ps pair = Inr ds"
    and "column_values ds (fst pair) = Inr x" and "column_values ds (snd pair) = Inr y"
  shows "columns ds = [(fst pair, x), (snd pair, y)] \<and> fst pair \<noteq> snd pair"
proof -
  from assms(2) obtain c where
    c: "filter (\<lambda>c. fst c = fst pair) (select_columns ps [fst pair, snd pair]) = [c]"
    and ds: "ds = take_rows (argsort (snd c)) (ps\<lparr>columns := select_columns ps [fst pair, snd pair]\<rparr>)"
    and present: "fst pair \<in> set (column_labels ps)" "snd pair \<in> set (column_labels ps)"
    by (rule sorted_selection_Inr)
  from assms(1) present obtain vb vt where
    vb: "filter (\<lambda>c. fst c = fst pair) (columns ps) = [(fst pair, vb)]"
    and vt: "filter (\<lambda>c. fst c = snd pair) (columns ps) = [(snd pair, vt)]"
    unfolding column_labels_def using unique_filter [of "columns ps"] by (metis set_map)
  have sel: "select_columns ps [fst pair, snd pair] = [(fst pair, vb), (snd pair, vt)]"
    by (simp add: select_columns_def vb vt)
  from c have ne: "fst pair \<noteq> snd pair"
    unfolding sel by (auto split: if_splits)
  have cols: "columns ds = [(fst pair, map (\<lambda>i. vb ! i) (argsort (snd c))),
                            (snd pair, map (\<lambda>i. vt ! i) (argsort (snd c)))]"
    by (simp add: ds take_rows_def sel)
  from column_values_Inr [OF assms(3)] have "x = map (\<lambda>i. vb ! i) (argsort (snd c))"
    unfolding cols using ne by auto
  moreover from column_values_Inr [OF assms(4)] have "y = map (\<lambda>i. vt ! i) (argsort (snd c))"
    unfolding cols using ne by auto
  ultimately show ?thesis using cols ne by simp
qed

lemma np_max_two: "np_max [a, b] = Inr (max a b)"
  by (simp add: np_max_def max.commute)

text \<open>
  Claim C9. Whenever the loop body completes for a pair, the two series handed to the
  enrichment engine, \<^verbatim>\<open>maxZ\<close> and \<^verbatim>\<open>deltaZ\<close>, carry the same index: the feature
  identifiers of the selection sorted by the baseline replicate (\<open>x\<close> is ascending). Each
  has one value per identifier; the \<open>i\<close>-th value of \<^verbatim>\<open>maxZ\<close> is the maximum of the
  \<open>i\<close>-th row of that selection (of the pair's two columns when the column labels are
  unique) and \<^verbatim>\<open>deltaZ\<close> holds \<open>y - yfit\<close> in the same row order. For a rectangular
  matrix the sorted identifiers are a permutation of the matrix's identifiers.
\<close>

theorem pair_series_aligned:
  assumes "pair_step e a ta processed_scores sets pair st w = (w', Inr st')"
  shows "\<exists>data_sorted x y yfit kwargs.
     sorted_selection processed_scores pair = Inr data_sorted \<and>
     column_values data_sorted (fst pair) = Inr x \<and> sorted x \<and>
     column_values data_sorted (snd pair) = Inr y \<and>
     fit_spline e a x y = Inr yfit \<and>
     calls w' = calls w @ [PseaCall kwargs] \<and>
     s_index (maxZ kwargs) = index data_sorted \<and>
     s_index (deltaZ kwargs) = index data_sorted \<and>
     length (s_data (maxZ kwargs)) = length (index data_sorted) \<and>
     length (s_data (deltaZ kwargs)) = length (index data_sorted) \<and>
     (\<forall>i<length (index data_sorted).
        np_max (row_values data_sorted i) = Inr (s_data (maxZ kwargs) ! i)) \<and>
     np_subtract y yfit = Inr (s_data (deltaZ kwargs)) \<and>
     (distinct (column_labels processed_scores) \<longrightarrow>
        (\<forall>i<length (index data_sorted). s_data (maxZ kwargs) ! i = max (x ! i) (y ! i))) \<and>
     (rectangular processed_scores \<longrightarrow>
        mset (index data_sorted) = mset (index processed_scores))"
proof -
  from assms obtain data_sorted x y yfit maxima maxZs delta deltaZs where
    sel: "sorted_selection processed_scores pair = Inr data_sorted"
    and x: "column_values data_sorted (fst pair) = Inr x"
    and y: "column_values data_sorted (snd pair) = Inr y"
    and fit: "fit_spline e a x y = Inr yfit"
    and maxima: "row_maxima data_sorted = Inr maxima"
    and maxZs: "make_series maxima (index data_sorted) = Inr maxZs"
    and delta: "np_subtract y yfit = Inr delta"
    and deltaZs: "make_series delta (index data_sorted) = Inr deltaZs"
    and calls: "calls w' = calls w @ [PseaCall \<lparr>maxZ = maxZs, deltaZ = deltaZs, a_peptide_sets = sets,
               a_species_taxa_file = species_taxa_file a, a_threshold = threshold a,
               a_permutation_num = permutation_num a, a_min_size = min_size a,
               a_max_size = max_size a\<rparr>]"
    by (rule pair_step_Inr)
  let ?kwargs = "\<lparr>maxZ = maxZs, deltaZ = deltaZs, a_peptide_sets = sets,
               a_species_taxa_file = species_taxa_file a, a_threshold = threshold a,
               a_permutation_num = permutation_num a, a_min_size = min_size a,
               a_max_size = max_size a\<rparr>"
  note mz = make_series_Inr [OF maxZs] and dz = make_series_Inr [OF deltaZs]
  have rows: "\<forall>i<length (index data_sorted). np_max (row_values data_sorted i) = Inr (s_data maxZs ! i)"
    using row_maxima_Inr(2) [OF maxima] mz by simp
  have two: "\<forall>i<length (index data_sorted). s_data maxZs ! i = max (x ! i) (y ! i)"
    if d: "distinct (column_labels processed_scores)"
  proof (intro allI impI)
    fix i assume i: "i < length (index data_sorted)"
    from sorted_selection_two_columns [OF d sel x y]
    have "row_values data_sorted i = [x ! i, y ! i]"
      by (simp add: row_values_def)
    moreover from rows i have "np_max (row_values data_sorted i) = Inr (s_data maxZs ! i)"
      by blast
    ultimately show "s_data maxZs ! i = max (x ! i) (y ! i)"
      by (simp add: np_max_two)
  qed
  have perm: "mset (index data_sorted) = mset (index processed_scores)"
    if "rectangular processed_scores"
    using sel that by (rule sorted_index_permutation)
  have "sorted x"
    using baseline_values_sorted [OF sel x] by simp
  with sel x y fit calls mz dz rows delta two perm show ?thesis
    by (intro exI [of _ data_sorted] exI [of _ x] exI [of _ y] exI [of _ yfit] exI [of _ ?kwargs])
       simp
qed

lemma pair_step_run:
  assumes "sorted_selection ps pair = Inr data_sorted"
    and "column_values data_sorted (fst pair) = Inr x"
    and "column_values data_sorted (snd pair) = Inr y"
    and "fit_spline e a x y = Inr yfit"
    and "row_maxima data_sorted = Inr maxima"
    and "make_series maxima (index data_sorted) = Inr maxZs"
    and "np_subtract y yfit = Inr delta"
    and "make_series delta (index data_sorted) = Inr deltaZs"
    and "psea e \<lparr>maxZ = maxZs, deltaZ = deltaZs, a_peptide_sets = sets,
               a_species_taxa_file = species_taxa_file a, a_threshold = threshold a,
               a_permutation_num = permutation_num a, a_min_size = min_size a,
               a_max_size = max_size a\<rparr> = Inr tbl"
    and "table_column tbl ta = Inr taxa"
  shows "pair_step e a ta ps sets pair st w =
    (w\<lparr>stdout := stdout w @ [''Working on pair ('' @ fst pair @ '', '' @ snd pair @ '')...''],
       calls := calls w @ [PseaCall \<lparr>maxZ = maxZs, deltaZ = deltaZs, a_peptide_sets = sets,
               a_species_taxa_file = species_taxa_file a, a_threshold = threshold a,
               a_permutation_num = permutation_num a, a_min_size = min_size a,
               a_max_size = max_size a\<rparr>],
       fs := (fs w)(table_dir a @ ''/'' @ table_prefix pair @ ''_psea_table.tsv'' \<mapsto> TableFile tbl)\<rparr>,
     Inr \<lparr>titles = titles st @ [table_prefix pair],
          used_pairs = used_pairs st @ [pair],
          pair_spline_dict = extend_spline x yfit (table_prefix pair) (pair_spline_dict st)\<rparr>)"
  using assms
  by (simp add: pair_step_def bindW_def lift_def ret_def print_line_def log_call_def write_file_def)

lemma upt2: "[0..<2] = [0, Suc 0]"
  by (simp add: upt_rec numeral_2_eq_2)

lemma small_sorted: "sorted_selection small_scores (''A'', ''B'') =
  Inr \<lparr>index = [''pep2'', ''pep1''], columns = [(''A'', [0, 1]), (''B'', [2, 0])]\<rparr>"
  by (simp add: sorted_selection_def loc_columns_def column_labels_def select_columns_def
      small_scores_def sort_values_def take_rows_def argsort_def upt2)

lemma small_step:
  "pair_step demo_env demo_args ''ID'' small_scores sets (''A'', ''B'') st w =
    (w\<lparr>stdout := stdout w @ [''Working on pair (A, B)...''],
       calls := calls w @ [PseaCall
          \<lparr>maxZ = \<lparr>s_index = [''pep2'', ''pep1''], s_data = [2, 1]\<rparr>,
           deltaZ = \<lparr>s_index = [''pep2'', ''pep1''], s_data = [2, -1]\<rparr>,
           a_peptide_sets = sets, a_species_taxa_file = [], a_threshold = 3 / 4,
           a_permutation_num = 10000, a_min_size = 15, a_max_size = 2000\<rparr>],
       fs := (fs w)(''./psea_table_outdir/A~B_psea_table.tsv'' \<mapsto> TableFile demo_table)\<rparr>,
     Inr \<lparr>titles = titles st @ [''A~B''],
          used_pairs = used_pairs st @ [(''A'', ''B'')],
          pair_spline_dict = extend_spline [0, 1] [0, 1] ''A~B'' (pair_spline_dict st)\<rparr>)"
proof -
  have "pair_step demo_env demo_args ''ID'' small_scores sets (''A'', ''B'') st w =
    (w\<lparr>stdout := stdout w @ [''Working on pair ('' @ fst (''A'', ''B'') @ '', '' @ snd (''A'', ''B'') @ '')...''],
       calls := calls w @ [PseaCall
          \<lparr>maxZ = \<lparr>s_index = [''pep2'', ''pep1''], s_data = [2, 1]\<rparr>,
           deltaZ = \<lparr>s_index = [''pep2'', ''pep1''], s_data = [2, -1]\<rparr>,
           a_peptide_sets = sets, a_species_taxa_file = species_taxa_file demo_args,
           a_threshold = threshold demo_args,
           a_permutation_num = permutation_num demo_args, a_min_size = min_size demo_args,
           a_max_size = max_size demo_args\<rparr>],
       fs := (fs w)(table_dir demo_args @ ''/'' @ table_prefix (''A'', ''B'') @ ''_psea_table.tsv''
                \<mapsto> TableFile demo_table)\<rparr>,
     Inr \<lparr>titles = titles st @ [table_prefix (''A'', ''B'')],
          used_pairs = used_pairs st @ [(''A'', ''B'')],
          pair_spline_dict = extend_spline [0, 1] [0, 1] (table_prefix (''A'', ''B'')) (pair_spline_dict st)\<rparr>)"
  proof (rule pair_step_run)
    show "sorted_selection small_scores (''A'', ''B'') =
      Inr \<lparr>index = [''pep2'', ''pep1''], columns = [(''A'', [0, 1]), (''B'', [2, 0])]\<rparr>"
      by (rule small_sorted)
    show "column_values \<lparr>index = [''pep2'', ''pep1''], columns = [(''A'', [0, 1]), (''B'', [2, 0])]\<rparr>
        (fst (''A'', ''B'')) = Inr [0, 1]"
      by (simp add: column_values_def)
    show "column_values \<lparr>index = [''pep2'', ''pep1''], columns = [(''A'', [0, 1]), (''B'', [2, 0])]\<rparr>
        (snd (''A'', ''B'')) = Inr [2, 0]"
      by (simp add: column_values_def)
    show "fit_spline demo_env demo_args [0, 1] [2, 0] = Inr [0, 1]"
      by (simp add: fit_spline_def demo_env_def demo_args_def)
    show "row_maxima \<lparr>index = [''pep2'', ''pep1''], columns = [(''A'', [0, 1]), (''B'', [2, 0])]\<rparr>
        = Inr [2, 1]"
      by (simp add: row_maxima_def row_values_def np_max_def upt2)
    show "make_series [2, 1]
        (index \<lparr>index = [''pep2'', ''pep1''], columns = [(''A'', [0, 1]), (''B'', [2, 0])]\<rparr>)
        = Inr \<lparr>s_index = [''pep2'', ''pep1''], s_data = [2, 1]\<rparr>"
      by (simp add: make_series_def)
    show "np_subtract [2, 0] [0, 1] = Inr [2, -1]"
      by (simp add: np_subtract_def)
    show "make_series [2, -1]
        (index \<lparr>index = [''pep2'', ''pep1''], columns = [(''A'', [0, 1]), (''B'', [2, 0])]\<rparr>)
        = Inr \<lparr>s_index = [''pep2'', ''pep1''], s_data = [2, -1]\<rparr>"
      by (simp add: make_series_def)
    show "psea demo_env \<lparr>maxZ = \<lparr>s_index = [''pep2'', ''pep1''], s_data = [2, 1]\<rparr>,
           deltaZ = \<lparr>s_index = [''pep2'', ''pep1''], s_data = [2, -1]\<rparr>,
           a_peptide_sets = sets, a_species_taxa_file = species_taxa_file demo_args,
           a_threshold = threshold demo_args,
           a_permutation_num = permutation_num demo_args, a_min_size = min_size demo_args,
           a_max_size = max_size demo_args\<rparr> = Inr demo_table"
      by (simp add: demo_env_def)
    show "table_column demo_table ''ID'' = Inr [''set1'']"
      by (simp add: table_column_def demo_table_def)
  qed
  then show ?thesis
    by (simp add: table_prefix_def demo_args_def)
qed

theorem pair_series_aligned_witness:
  "\<exists>data_sorted kwargs.
     sorted_selection small_scores (''A'', ''B'') = Inr data_sorted \<and>
     calls (fst (pair_step demo_env demo_args ''ID'' small_scores [] (''A'', ''B'') initial_state
                   (demo_world []))) = [PseaCall kwargs] \<and>
     index data_sorted = [''pep2'', ''pep1''] \<and>
     s_index (maxZ kwargs) = index data_sorted \<and> s_data (maxZ kwargs) = [2, 1] \<and>
     s_index (deltaZ kwargs) = index data_sorted \<and> s_data (deltaZ kwargs) = [2, -1]"
proof -
  let ?r = "pair_step demo_env demo_args ''ID'' small_scores [] (''A'', ''B'') initial_state
              (demo_world [])"
  have run: "?r = (fst ?r, Inr (projr (snd ?r)))"
    by (simp add: small_step)
  from pair_series_aligned [OF run] obtain data_sorted kwargs where
    "sorted_selection small_scores (''A'', ''B'') = Inr data_sorted"
    "calls (fst ?r) = calls (demo_world []) @ [PseaCall kwargs]"
    "s_index (maxZ kwargs) = index data_sorted"
    "s_index (deltaZ kwargs) = index data_sorted"
    by auto
  then show ?thesis
    by (auto simp: small_step small_sorted demo_world_def)
qed

lemma pair_step_state:
  assumes "pair_step e a ta ps sets pair st w = (w', Inr st')"
  obtains x yfit kwargs where
    "st' = \<lparr>titles = titles st @ [table_prefix pair],
          used_pairs = used_pairs st @ [pair],
          pair_spline_dict = extend_spline x yfit (table_prefix pair) (pair_spline_dict st)\<rparr>"
    "calls w' = calls w @ [PseaCall kwargs]"
    "rectangular ps \<longrightarrow> length x = length (index ps)"
    "(\<forall>u v f. fit_spline e a u v = Inr f \<longrightarrow> length f = length u) \<longrightarrow> length yfit = length x"
proof -
  from assms obtain data_sorted x y yfit maxZs deltaZs where
    sel: "sorted_selection ps pair = Inr data_sorted"
    and x: "column_values data_sorted (fst pair) = Inr x"
    and fit: "fit_spline e a x y = Inr yfit"
    and calls: "calls w' = calls w @ [PseaCall \<lparr>maxZ = maxZs, deltaZ = deltaZs, a_peptide_sets = sets,
               a_species_taxa_file = species_taxa_file a, a_threshold = threshold a,
               a_permutation_num = permutation_num a, a_min_size = min_size a,
               a_max_size = max_size a\<rparr>]"
    and st': "st' = \<lparr>titles = titles st @ [table_prefix pair],
          used_pairs = used_pairs st @ [pair],
          pair_spline_dict = extend_spline x yfit (table_prefix pair) (pair_spline_dict st)\<rparr>"
    by (rule pair_step_Inr)
  have "length x = length (index ps)" if "rectangular ps"
  proof -
    have "mset (index data_sorted) = mset (index ps)"
      using sel that by (rule sorted_index_permutation)
    then have "length (index data_sorted) = length (index ps)"
      by (rule mset_eq_length)
    with baseline_values_sorted [OF sel x] show ?thesis by simp
  qed
  moreover have "length yfit = length x"
    if "\<forall>u v f. fit_spline e a u v = Inr f \<longrightarrow> length f = length u"
    using that fit by blast
  ultimately show ?thesis
    using st' calls by (intro that [of x yfit]) auto
qed


lemma pair_loop_Inr:
  assumes "pair_loop (pair_step e a ta ps sets) pairs st w = (w', Inr st')"
  shows "used_pairs st' = used_pairs st @ pairs \<and>
    titles st' = titles st @ map table_prefix pairs \<and>
    (\<exists>cs. calls w' = calls w @ cs \<and> list_all is_psea_call cs \<and> length cs = length pairs) \<and>
    (rectangular ps \<longrightarrow>
       length (sp_x (pair_spline_dict st')) =
         length (sp_x (pair_spline_dict st)) + length pairs * length (index ps) \<and>
       sp_pair (pair_spline_dict st') =
         sp_pair (pair_spline_dict st) @
           concat (map (\<lambda>p. replicate (length (index ps)) (table_prefix p)) pairs) \<and>
       ((\<forall>u v f. fit_spline e a u v = Inr f \<longrightarrow> length f = length u) \<longrightarrow>
          length (sp_y (pair_spline_dict st')) =
            length (sp_y (pair_spline_dict st)) + length pairs * length (index ps)))"
  using assms
proof (induction pairs arbitrary: st w)
  case Nil
  then show ?case by simp
next
  case (Cons pair pairs)
  from Cons.prems obtain w1 st1 where
    step: "pair_step e a ta ps sets pair st w = (w1, Inr st1)"
    and rest: "pair_loop (pair_step e a ta ps sets) pairs st1 w1 = (w', Inr st')"
    by (auto split: prod.splits sum.splits)
  from step obtain x yfit kwargs where
    st1: "st1 = \<lparr>titles = titles st @ [table_prefix pair],
          used_pairs = used_pairs st @ [pair],
          pair_spline_dict = extend_spline x yfit (table_prefix pair) (pair_spline_dict st)\<rparr>"
    and c1: "calls w1 = calls w @ [PseaCall kwargs]"
    and lx: "rectangular ps \<longrightarrow> length x = length (index ps)"
    and ly: "(\<forall>u v f. fit_spline e a u v = Inr f \<longrightarrow> length f = length u) \<longrightarrow> length yfit = length x"
    by (rule pair_step_state)
  note IH = Cons.IH [OF rest]
  from IH obtain cs where cs: "calls w' = calls w1 @ cs" "list_all is_psea_call cs"
    "length cs = length pairs"
    by blast
  have calls: "\<exists>cs. calls w' = calls w @ cs \<and> list_all is_psea_call cs \<and>
      length cs = length (pair # pairs)"
    using cs c1 by (intro exI [of _ "PseaCall kwargs # cs"]) (simp add: is_psea_call_def)
  show ?case
    using IH calls lx ly
    by (simp add: st1 extend_spline_def)
qed

lemma sum_list_const: "sum_list (map (\<lambda>p. n) ps) = length ps * (n::nat)"
  by (induction ps) simp_all

lemma set_concat_replicate:
  "set (concat (map (\<lambda>p. replicate n (f p)) ps)) \<subseteq> f ` set ps"
  by (induction ps) auto

lemma matches_exactly_one_pair_inj:
  assumes "inj_on table_prefix (set ps)" and "p \<in> set ps"
  shows "matches_exactly_one_pair ps (table_prefix p)"
proof -
  have "filter (\<lambda>q. table_prefix q = table_prefix p) (remdups ps) = filter (\<lambda>q. q = p) (remdups ps)"
    using assms by (intro filter_cong) (auto dest: inj_onD)
  moreover have "length (filter (\<lambda>q. q = p) (remdups ps)) = card ({q. q = p} \<inter> set (remdups ps))"
    by (rule distinct_length_filter) simp
  moreover have "{q. q = p} \<inter> set (remdups ps) = {p}"
    using assms(2) by auto
  ultimately show ?thesis
    by (simp add: matches_exactly_one_pair_def)
qed

text \<open>
  Claim C8, as amended. When the loop over the pairs completes on a rectangular matrix,
  with a spline routine that returns one fitted value per \<open>x\<close> value, the three lists of
  the spline record have one length, the sum over the processed pairs of the row count
  of the matrix; the processed pairs are the input pairs, and the labels are, pair after
  pair, one \<open>baseline~treatment\<close> label per row. Every label matches exactly one processed
  pair when no two of the pairs share a label.
\<close>

theorem spline_record_after_loop:
  assumes "pair_loop (pair_step e a ta ps sets) pairs initial_state w = (w', Inr st)"
    and "rectangular ps"
    and "\<And>u v f. fit_spline e a u v = Inr f \<Longrightarrow> length f = length u"
  shows "length (sp_x (pair_spline_dict st)) = length (sp_y (pair_spline_dict st)) \<and>
    length (sp_y (pair_spline_dict st)) = length (sp_pair (pair_spline_dict st)) \<and>
    length (sp_x (pair_spline_dict st)) = sum_list (map (\<lambda>p. length (index ps)) pairs) \<and>
    used_pairs st = pairs \<and>
    sp_pair (pair_spline_dict st) =
      concat (map (\<lambda>p. replicate (length (index ps)) (table_prefix p)) pairs) \<and>
    (inj_on table_prefix (set pairs) \<longrightarrow>
       list_all (matches_exactly_one_pair (used_pairs st)) (sp_pair (pair_spline_dict st)))"
proof -
  from assms(3) have al: "\<forall>u v f. fit_spline e a u v = Inr f \<longrightarrow> length f = length u"
    by blast
  from pair_loop_Inr [OF assms(1)] assms(2) al
  have up: "used_pairs st = pairs"
    and lx: "length (sp_x (pair_spline_dict st)) = length pairs * length (index ps)"
    and ly: "length (sp_y (pair_spline_dict st)) = length pairs * length (index ps)"
    and lab: "sp_pair (pair_spline_dict st) =
      concat (map (\<lambda>p. replicate (length (index ps)) (table_prefix p)) pairs)"
    by (simp_all add: initial_state_def)
  have lp: "length (sp_pair (pair_spline_dict st)) = length pairs * length (index ps)"
    unfolding lab by (induction pairs) simp_all
  have "list_all (matches_exactly_one_pair (used_pairs st)) (sp_pair (pair_spline_dict st))"
    if inj: "inj_on table_prefix (set pairs)"
  proof -
    have "matches_exactly_one_pair pairs l" if "l \<in> set (sp_pair (pair_spline_dict st))" for l
    proof -
      from that set_concat_replicate [of "length (index ps)" table_prefix pairs]
      obtain p where "p \<in> set pairs" "l = table_prefix p"
        unfolding lab by blast
      with inj show ?thesis
        by (simp add: matches_exactly_one_pair_inj)
    qed
    then show ?thesis
      by (simp add: up list_all_iff)
  qed
  with up lx ly lp lab show ?thesis
    by (simp add: sum_list_const)
qed

lemma demo_fit: "fit_spline demo_env demo_args u v = Inr u"
  by (simp add: fit_spline_def demo_env_def demo_args_def)

lemma np_subtract_same_length:
  "length y = length yfit \<Longrightarrow> np_subtract y yfit = Inr (map (\<lambda>(a, b). a - b) (zip y yfit))"
  by (simp add: np_subtract_def)

lemma demo_step:
  assumes "sorted_selection ps pair = Inr ds"
    and "column_values ds (fst pair) = Inr x"
    and "column_values ds (snd pair) = Inr y"
    and "row_maxima ds = Inr m"
    and "length m = length (index ds)" and "length y = length x" and "length x = length (index ds)"
  shows "\<exists>w'. pair_step demo_env demo_args ''ID'' ps sets pair st w =
    (w', Inr \<lparr>titles = titles st @ [table_prefix pair],
          used_pairs = used_pairs st @ [pair],
          pair_spline_dict = extend_spline x x (table_prefix pair) (pair_spline_dict st)\<rparr>)"
proof -
  have "pair_step demo_env demo_args ''ID'' ps sets pair st w =
    (w\<lparr>stdout := stdout w @ [''Working on pair ('' @ fst pair @ '', '' @ snd pair @ '')...''],
       calls := calls w @ [PseaCall \<lparr>maxZ = \<lparr>s_index = index ds, s_data = m\<rparr>,
               deltaZ = \<lparr>s_index = index ds, s_data = map (\<lambda>(a, b). a - b) (zip y x)\<rparr>,
               a_peptide_sets = sets,
               a_species_taxa_file = species_taxa_file demo_args, a_threshold = threshold demo_args,
               a_permutation_num = permutation_num demo_args, a_min_size = min_size demo_args,
               a_max_size = max_size demo_args\<rparr>],
       fs := (fs w)(table_dir demo_args @ ''/'' @ table_prefix pair @ ''_psea_table.tsv''
                \<mapsto> TableFile demo_table)\<rparr>,
     Inr \<lparr>titles = titles st @ [table_prefix pair],
          used_pairs = used_pairs st @ [pair],
          pair_spline_dict = extend_spline x x (table_prefix pair) (pair_spline_dict st)\<rparr>)"
  proof (rule pair_step_run)
    show "sorted_selection ps pair = Inr ds" by fact
    show "column_values ds (fst pair) = Inr x" by fact
    show "column_values ds (snd pair) = Inr y" by fact
    show "fit_spline demo_env demo_args x y = Inr x" by (rule demo_fit)
    show "row_maxima ds = Inr m" by fact
    show "make_series m (index ds) = Inr \<lparr>s_index = index ds, s_data = m\<rparr>"
      using assms(5) by (simp add: make_series_def)
    show "np_subtract y x = Inr (map (\<lambda>(a, b). a - b) (zip y x))"
      using assms(6) by (rule np_subtract_same_length)
    show "make_series (map (\<lambda>(a, b). a - b) (zip y x)) (index ds) =
        Inr \<lparr>s_index = index ds, s_data = map (\<lambda>(a, b). a - b) (zip y x)\<rparr>"
      using assms(6,7) by (simp add: make_series_def)
    show "psea demo_env \<lparr>maxZ = \<lparr>s_index = index ds, s_data = m\<rparr>,
               deltaZ = \<lparr>s_index = index ds, s_data = map (\<lambda>(a, b). a - b) (zip y x)\<rparr>,
               a_peptide_sets = sets,
               a_species_taxa_file = species_taxa_file demo_args, a_threshold = threshold demo_args,
               a_permutation_num = permutation_num demo_args, a_min_size = min_size demo_args,
               a_max_size = max_size demo_args\<rparr> = Inr demo_table"
      by (simp add: demo_env_def)
    show "table_column demo_table ''ID'' = Inr [''set1'']"
      by (simp add: table_column_def demo_table_def)
  qed
  then show ?thesis by blast
qed

lemma tilde_step_1:
  "\<exists>w'. pair_step demo_env demo_args ''ID'' tilde_scores sets (''A~B'', ''C'') st w =
    (w', Inr \<lparr>titles = titles st @ [''A~B~C''],
          used_pairs = used_pairs st @ [(''A~B'', ''C'')],
          pair_spline_dict = extend_spline [0, 1] [0, 1] ''A~B~C'' (pair_spline_dict st)\<rparr>)"
proof -
  have sel: "sorted_selection tilde_scores (''A~B'', ''C'') =
    Inr \<lparr>index = [''pep2'', ''pep1''], columns = [(''A~B'', [0, 1]), (''C'', [2, 0])]\<rparr>"
    by (simp add: sorted_selection_def loc_columns_def column_labels_def select_columns_def
        tilde_scores_def sort_values_def take_rows_def argsort_def upt2)
  have "\<exists>w'. pair_step demo_env demo_args ''ID'' tilde_scores sets (''A~B'', ''C'') st w =
    (w', Inr \<lparr>titles = titles st @ [table_prefix (''A~B'', ''C'')],
          used_pairs = used_pairs st @ [(''A~B'', ''C'')],
          pair_spline_dict = extend_spline [0, 1] [0, 1] (table_prefix (''A~B'', ''C''))
             (pair_spline_dict st)\<rparr>)"
    by (rule demo_step [OF sel, where y = "[2, 0]" and m = "[2, 1]"])
       (simp_all add: column_values_def row_maxima_def row_values_def np_max_def upt2)
  then show ?thesis by (simp add: table_prefix_def)
qed

lemma tilde_step_2:
  "\<exists>w'. pair_step demo_env demo_args ''ID'' tilde_scores sets (''A'', ''B~C'') st w =
    (w', Inr \<lparr>titles = titles st @ [''A~B~C''],
          used_pairs = used_pairs st @ [(''A'', ''B~C'')],
          pair_spline_dict = extend_spline [0, 1] [0, 1] ''A~B~C'' (pair_spline_dict st)\<rparr>)"
proof -
  have sel: "sorted_selection tilde_scores (''A'', ''B~C'') =
    Inr \<lparr>index = [''pep1'', ''pep2''], columns = [(''A'', [0, 1]), (''B~C'', [3, 0])]\<rparr>"
    by (simp add: sorted_selection_def loc_columns_def column_labels_def select_columns_def
        tilde_scores_def sort_values_def take_rows_def argsort_def upt2)
  have "\<exists>w'. pair_step demo_env demo_args ''ID'' tilde_scores sets (''A'', ''B~C'') st w =
    (w', Inr \<lparr>titles = titles st @ [table_prefix (''A'', ''B~C'')],
          used_pairs = used_pairs st @ [(''A'', ''B~C'')],
          pair_spline_dict = extend_spline [0, 1] [0, 1] (table_prefix (''A'', ''B~C''))
             (pair_spline_dict st)\<rparr>)"
    by (rule demo_step [OF sel, where y = "[3, 0]" and m = "[3, 1]"])
       (simp_all add: column_values_def row_maxima_def row_values_def np_max_def upt2)
  then show ?thesis by (simp add: table_prefix_def)
qed

text \<open>
  Claim C8 as stated fails where two different pairs share a label: with the replicates
  \<open>A~B\<close>, \<open>C\<close>, \<open>A\<close> and \<open>B~C\<close>, the pairs \<open>(A~B, C)\<close> and \<open>(A, B~C)\<close> are both
  processed, and every row of the spline record carries the label \<open>A~B~C\<close>, which
  matches both.
\<close>

theorem spline_label_matches_two_pairs:
  "snd (pair_loop (pair_step demo_env demo_args ''ID'' tilde_scores [])
          [(''A~B'', ''C''), (''A'', ''B~C'')] initial_state (demo_world [])) =
     Inr \<lparr>titles = [''A~B~C'', ''A~B~C''],
          used_pairs = [(''A~B'', ''C''), (''A'', ''B~C'')],
          pair_spline_dict =
            \<lparr>sp_x = [0, 1, 0, 1], sp_y = [0, 1, 0, 1],
             sp_pair = [''A~B~C'', ''A~B~C'', ''A~B~C'', ''A~B~C'']\<rparr>\<rparr> \<and>
   \<not> list_all (matches_exactly_one_pair [(''A~B'', ''C''), (''A'', ''B~C'')])
        [''A~B~C'', ''A~B~C'', ''A~B~C'', ''A~B~C'']"
proof -
  obtain w1 where s1: "pair_step demo_env demo_args ''ID'' tilde_scores [] (''A~B'', ''C'')
      initial_state (demo_world []) =
    (w1, Inr \<lparr>titles = titles initial_state @ [''A~B~C''],
          used_pairs = used_pairs initial_state @ [(''A~B'', ''C'')],
          pair_spline_dict = extend_spline [0, 1] [0, 1] ''A~B~C'' (pair_spline_dict initial_state)\<rparr>)"
    using tilde_step_1 by blast
  let ?st1 = "\<lparr>titles = titles initial_state @ [''A~B~C''],
          used_pairs = used_pairs initial_state @ [(''A~B'', ''C'')],
          pair_spline_dict = extend_spline [0, 1] [0, 1] ''A~B~C'' (pair_spline_dict initial_state)\<rparr>"
  obtain w2 where s2: "pair_step demo_env demo_args ''ID'' tilde_scores [] (''A'', ''B~C'') ?st1 w1 =
    (w2, Inr \<lparr>titles = titles ?st1 @ [''A~B~C''],
          used_pairs = used_pairs ?st1 @ [(''A'', ''B~C'')],
          pair_spline_dict = extend_spline [0, 1] [0, 1] ''A~B~C'' (pair_spline_dict ?st1)\<rparr>)"
    using tilde_step_2 by blast
  have "snd (pair_loop (pair_step demo_env demo_args ''ID'' tilde_scores [])
          [(''A~B'', ''C''), (''A'', ''B~C'')] initial_state (demo_world [])) =
     Inr \<lparr>titles = [''A~B~C'', ''A~B~C''],
          used_pairs = [(''A~B'', ''C''), (''A'', ''B~C'')],
          pair_spline_dict =
            \<lparr>sp_x = [0, 1, 0, 1], sp_y = [0, 1, 0, 1],
             sp_pair = [''A~B~C'', ''A~B~C'', ''A~B~C'', ''A~B~C'']\<rparr>\<rparr>"
  proof -
    have "pair_loop (pair_step demo_env demo_args ''ID'' tilde_scores [])
          [(''A~B'', ''C''), (''A'', ''B~C'')] initial_state (demo_world []) =
        (w2, Inr \<lparr>titles = titles ?st1 @ [''A~B~C''],
          used_pairs = used_pairs ?st1 @ [(''A'', ''B~C'')],
          pair_spline_dict = extend_spline [0, 1] [0, 1] ''A~B~C'' (pair_spline_dict ?st1)\<rparr>)"
      by (simp add: s1 s2)
    then show ?thesis
      by (simp add: initial_state_def extend_spline_def numeral_2_eq_2)
  qed
  moreover have "\<not> list_all (matches_exactly_one_pair [(''A~B'', ''C''), (''A'', ''B~C'')])
        [''A~B~C'', ''A~B~C'', ''A~B~C'', ''A~B~C'']"
    by (simp add: matches_exactly_one_pair_def table_prefix_def)
  ultimately show ?thesis by blast
qed

theorem spline_record_after_loop_witness:
  "\<exists>st. snd (pair_loop (pair_step demo_env demo_args ''ID'' small_scores []) [(''A'', ''B'')]
              initial_state (demo_world [])) = Inr st \<and>
     rectangular small_scores \<and>
     length (sp_x (pair_spline_dict st)) = 2 \<and> length (sp_y (pair_spline_dict st)) = 2 \<and>
     sp_pair (pair_spline_dict st) = [''A~B'', ''A~B''] \<and>
     list_all (matches_exactly_one_pair (used_pairs st)) (sp_pair (pair_spline_dict st))"
proof -
  let ?loop = "pair_loop (pair_step demo_env demo_args ''ID'' small_scores []) [(''A'', ''B'')]
              initial_state (demo_world [])"
  have run: "?loop = (fst ?loop, Inr (projr (snd ?loop)))"
    by (simp add: small_step)
  have rect: "rectangular small_scores"
    by (simp add: rectangular_def small_scores_def)
  have aligned: "length f = length u" if "fit_spline demo_env demo_args u v = Inr f" for u v f
    using that by (simp add: demo_fit)
  have inj: "inj_on table_prefix (set [(''A'', ''B'')])"
    by simp
  have "length (sp_x (pair_spline_dict (projr (snd ?loop)))) =
          length (sp_y (pair_spline_dict (projr (snd ?loop)))) \<and>
    length (sp_y (pair_spline_dict (projr (snd ?loop)))) =
          length (sp_pair (pair_spline_dict (projr (snd ?loop)))) \<and>
    length (sp_x (pair_spline_dict (projr (snd ?loop)))) =
          sum_list (map (\<lambda>p. length (index small_scores)) [(''A'', ''B'')]) \<and>
    used_pairs (projr (snd ?loop)) = [(''A'', ''B'')] \<and>
    sp_pair (pair_spline_dict (projr (snd ?loop))) =
      concat (map (\<lambda>p. replicate (length (index small_scores)) (table_prefix p)) [(''A'', ''B'')]) \<and>
    (inj_on table_prefix (set [(''A'', ''B'')]) \<longrightarrow>
       list_all (matches_exactly_one_pair (used_pairs (projr (snd ?loop))))
         (sp_pair (pair_spline_dict (projr (snd ?loop)))))"
    using run rect by (rule spline_record_after_loop) (rule aligned)
  with inj
  have "length (sp_x (pair_spline_dict (projr (snd ?loop)))) =
          length (sp_y (pair_spline_dict (projr (snd ?loop))))"
    and "length (sp_x (pair_spline_dict (projr (snd ?loop)))) =
          sum_list (map (\<lambda>p. length (index small_scores)) [(''A'', ''B'')])"
    and "sp_pair (pair_spline_dict (projr (snd ?loop))) =
      concat (map (\<lambda>p. replicate (length (index small_scores)) (table_prefix p)) [(''A'', ''B'')])"
    and "list_all (matches_exactly_one_pair (used_pairs (projr (snd ?loop))))
           (sp_pair (pair_spline_dict (projr (snd ?loop))))"
    by blast+
  then have "length (sp_x (pair_spline_dict (projr (snd ?loop)))) = 2"
    and "length (sp_y (pair_spline_dict (projr (snd ?loop)))) = 2"
    and "sp_pair (pair_spline_dict (projr (snd ?loop))) = [''A~B'', ''A~B'']"
    and "list_all (matches_exactly_one_pair (used_pairs (projr (snd ?loop))))
           (sp_pair (pair_spline_dict (projr (snd ?loop))))"
    by (simp_all add: small_scores_def table_prefix_def numeral_2_eq_2)
  moreover have "snd ?loop = Inr (projr (snd ?loop))"
    using run by (metis snd_conv)
  ultimately show ?thesis
    using rect by blast
qed

lemma call_action_Inr:
  "call_action act kwargs w = (w', Inr r) \<Longrightarrow> w' = w\<lparr>calls := calls w @ [ActionCall kwargs]\<rparr>"
  unfolding call_action_def comp_Inr_iffs by auto

lemma tempdir_block_Inr:
  assumes "tempdir_block e a volcano zscatter pairs processed file w = (w', Inr r)"
  obtains ps sets st w1 spline art where
    "remove_peptides e processed (peptide_sets_file a) = Inr (ps, sets)"
    "pair_loop (pair_step e a (taxa_access_of (species_taxa_file a)) ps sets) pairs initial_state
       (w\<lparr>fs := (fs w)(file \<mapsto> ScoresFile processed)\<rparr>) = (w1, Inr st)"
    "fs w' = (fs w1)(tempdir e @ ''/used_pairs.tsv'' \<mapsto> PairsFile (used_pairs st),
                     tempdir e @ ''/spline_data.tsv'' \<mapsto> SplineFile spline)"
    "calls w' = calls w1 @
       [ActionCall (ZscatterArgs
              \<lparr>zscores = art,
               z_pairs_file = tempdir e @ ''/used_pairs.tsv'',
               spline_file = tempdir e @ ''/spline_data.tsv'',
               p_val_access = ''p.adjust'',
               le_peps_access = ''core_enrichment'',
               z_taxa_access = taxa_access_of (species_taxa_file a),
               highlight_data = table_dir a,
               highlight_threshold = p_val_thresh a\<rparr>),
        ActionCall (VolcanoArgs
              \<lparr>xy_dir = table_dir a,
               xy_access = [''NES'', ''p.adjust''],
               v_taxa_access = taxa_access_of (species_taxa_file a),
               x_threshold = es_thresh a,
               y_threshold = p_val_thresh a,
               xy_labels = [''Enrichment score'', ''Adjusted p-values''],
               v_titles = titles st\<rparr>)]"
proof -
  from assms show ?thesis
    unfolding tempdir_block_def bindW_Inr_iff
    apply (elim exE conjE)
    apply (simp only: lift_Inr_iff write_file_Inr_iff ret_iff split_paired_all prod.case)
    apply (elim conjE)
    apply (simp only: bindW_Inr_iff lift_Inr_iff write_file_Inr_iff ret_iff)
    apply (elim exE conjE)
    apply (drule call_action_Inr)+
    apply hypsubst
    apply (rule that)
       apply assumption+
     apply simp_all
    done
qed


lemma used_pairs_file_content:
  assumes "tempdir_block e a volcano zscatter pairs processed file w = (w', Inr r)"
  shows "fs w' (tempdir e @ ''/used_pairs.tsv'') = Some (PairsFile pairs)"
proof -
  from assms obtain ps sets st w1 spline where
    loop: "pair_loop (pair_step e a (taxa_access_of (species_taxa_file a)) ps sets) pairs initial_state
       (w\<lparr>fs := (fs w)(file \<mapsto> ScoresFile processed)\<rparr>) = (w1, Inr st)"
    and fs: "fs w' = (fs w1)(tempdir e @ ''/used_pairs.tsv'' \<mapsto> PairsFile (used_pairs st),
                     tempdir e @ ''/spline_data.tsv'' \<mapsto> SplineFile spline)"
    by (rule tempdir_block_Inr)
  from pair_loop_Inr [OF loop] have "used_pairs st = pairs"
    by (simp add: initial_state_def)
  then show ?thesis
    by (simp add: fs)
qed

text \<open>
  Claim C6, as amended. When the block of lines 66-168 completes, the file
  \<^verbatim>\<open>used_pairs.tsv\<close> of the temporary directory holds the input pair list itself: every
  pair of the input, in input order, once per occurrence. It is free of duplicates
  exactly when the input list is.
\<close>

theorem used_pairs_file_is_input_list:
  assumes "tempdir_block e a volcano zscatter pairs processed file w = (w', Inr r)"
  shows "\<exists>persisted. fs w' (tempdir e @ ''/used_pairs.tsv'') = Some (PairsFile persisted) \<and>
           persisted = pairs \<and> (distinct persisted \<longleftrightarrow> distinct pairs)"
  using used_pairs_file_content [OF assms] by simp

lemma demo_env_fields:
  "remove_peptides demo_env df sets_file = Inr (df, [(''set1'', [''pep1'', ''pep2''])])"
  "make_artifact demo_env semantic_type view = Inr (Artifact view)"
  "get_action demo_env plugin name = Inr (demo_action name)"
  "tempdir demo_env = ''/tmp/tmpq2psea''"
  by (simp_all add: demo_env_def)

lemma demo_block:
  assumes "pair_loop (pair_step demo_env demo_args ''ID'' processed [(''set1'', [''pep1'', ''pep2''])])
      pairs initial_state (w\<lparr>fs := (fs w)(file \<mapsto> ScoresFile processed)\<rparr>) = (w1, Inr st)"
    and "spline_frame (pair_spline_dict st) = Inr spline"
  shows "\<exists>w'. tempdir_block demo_env demo_args (demo_action ''volcano'') (demo_action ''zscatter'')
      pairs processed file w = (w', Inr (Artifact ''zscatter'', Artifact ''volcano''))"
proof -
  have ta: "taxa_access_of (species_taxa_file demo_args) = ''ID''"
    by (simp add: taxa_access_of_def demo_args_def)
  show ?thesis
    unfolding tempdir_block_def
    by (simp add: bindW_def lift_def ret_def write_file_def call_action_def log_call_def
        unpack_one_def demo_env_fields demo_action_def ta assms)
qed

lemma small_loop_twice:
  "pair_loop (pair_step demo_env demo_args ''ID'' small_scores sets)
      [(''A'', ''B''), (''A'', ''B'')] initial_state w =
   (fst (pair_loop (pair_step demo_env demo_args ''ID'' small_scores sets)
      [(''A'', ''B''), (''A'', ''B'')] initial_state w),
    Inr \<lparr>titles = [''A~B'', ''A~B''], used_pairs = [(''A'', ''B''), (''A'', ''B'')],
         pair_spline_dict = \<lparr>sp_x = [0, 1, 0, 1], sp_y = [0, 1, 0, 1],
            sp_pair = [''A~B'', ''A~B'', ''A~B'', ''A~B'']\<rparr>\<rparr>)"
  by (simp add: small_step initial_state_def extend_spline_def numeral_2_eq_2)

text \<open>
  Claim C6 as stated fails on a pairs list that repeats a pair: both occurrences are
  processed and both are written to \<^verbatim>\<open>used_pairs.tsv\<close>.
\<close>

theorem used_pairs_file_keeps_duplicates:
  "snd (tempdir_block demo_env demo_args (demo_action ''volcano'') (demo_action ''zscatter'')
          [(''A'', ''B''), (''A'', ''B'')] small_scores ''transformed_scores.tsv''
          (demo_world [(''A'', ''B''), (''A'', ''B'')])) =
     Inr (Artifact ''zscatter'', Artifact ''volcano'') \<and>
   fs (fst (tempdir_block demo_env demo_args (demo_action ''volcano'') (demo_action ''zscatter'')
          [(''A'', ''B''), (''A'', ''B'')] small_scores ''transformed_scores.tsv''
          (demo_world [(''A'', ''B''), (''A'', ''B'')]))) ''/tmp/tmpq2psea/used_pairs.tsv'' =
     Some (PairsFile [(''A'', ''B''), (''A'', ''B'')]) \<and>
   \<not> distinct [(''A'', ''B''), (''A'', ''B'')]"
proof -
  let ?w = "demo_world [(''A'', ''B''), (''A'', ''B'')]"
  let ?block = "tempdir_block demo_env demo_args (demo_action ''volcano'') (demo_action ''zscatter'')
          [(''A'', ''B''), (''A'', ''B'')] small_scores ''transformed_scores.tsv'' ?w"
  have "\<exists>w'. ?block = (w', Inr (Artifact ''zscatter'', Artifact ''volcano''))"
    by (rule demo_block [OF small_loop_twice]) (simp add: spline_frame_def)
  then obtain w' where run: "?block = (w', Inr (Artifact ''zscatter'', Artifact ''volcano''))"
    by blast
  from used_pairs_file_content [OF run]
  have "fs w' ''/tmp/tmpq2psea/used_pairs.tsv'' = Some (PairsFile [(''A'', ''B''), (''A'', ''B'')])"
    by (simp add: demo_env_fields)
  with run show ?thesis by simp
qed

lemma small_loop_once:
  "pair_loop (pair_step demo_env demo_args ''ID'' small_scores sets)
      [(''A'', ''B'')] initial_state w =
   (fst (pair_loop (pair_step demo_env demo_args ''ID'' small_scores sets)
      [(''A'', ''B'')] initial_state w),
    Inr \<lparr>titles = [''A~B''], used_pairs = [(''A'', ''B'')],
         pair_spline_dict = \<lparr>sp_x = [0, 1], sp_y = [0, 1], sp_pair = [''A~B'', ''A~B'']\<rparr>\<rparr>)"
  by (simp add: small_step initial_state_def extend_spline_def numeral_2_eq_2)

theorem used_pairs_file_is_input_list_witness:
  "snd (tempdir_block demo_env demo_args (demo_action ''volcano'') (demo_action ''zscatter'')
          [(''A'', ''B'')] small_scores ''transformed_scores.tsv'' (demo_world [(''A'', ''B'')])) =
     Inr (Artifact ''zscatter'', Artifact ''volcano'') \<and>
   fs (fst (tempdir_block demo_env demo_args (demo_action ''volcano'') (demo_action ''zscatter'')
          [(''A'', ''B'')] small_scores ''transformed_scores.tsv'' (demo_world [(''A'', ''B'')])))
      ''/tmp/tmpq2psea/used_pairs.tsv'' = Some (PairsFile [(''A'', ''B'')])"
proof -
  let ?w = "demo_world [(''A'', ''B'')]"
  let ?block = "tempdir_block demo_env demo_args (demo_action ''volcano'') (demo_action ''zscatter'')
          [(''A'', ''B'')] small_scores ''transformed_scores.tsv'' ?w"
  have "\<exists>w'. ?block = (w', Inr (Artifact ''zscatter'', Artifact ''volcano''))"
    by (rule demo_block [OF small_loop_once]) (simp add: spline_frame_def)
  then obtain w' where run: "?block = (w', Inr (Artifact ''zscatter'', Artifact ''volcano''))"
    by blast
  from used_pairs_file_is_input_list [OF run]
  have "fs w' ''/tmp/tmpq2psea/used_pairs.tsv'' = Some (PairsFile [(''A'', ''B'')])"
    by (simp add: demo_env_fields)
  with run show ?thesis by simp
qed

lemma prepare_Inr: "prepare e a w = (w1, Inr x) \<Longrightarrow> calls w1 = calls w"
  unfolding prepare_def bindW_Inr_iff lift_Inr_iff
  by (auto simp: os_mkdir_def ret_def bindW_def split: if_splits)

lemma read_pairs_Inr: "read_pairs p w = (w1, Inr x) \<Longrightarrow> w1 = w"
  by (auto simp: read_pairs_def split: option.splits node.splits)

lemma read_csv_Inr: "read_csv p w = (w1, Inr x) \<Longrightarrow> w1 = w"
  by (auto simp: read_csv_def split: option.splits node.splits)

lemma with_tempdir_Inr:
  "with_tempdir d block w = (w', Inr r) \<Longrightarrow>
     \<exists>w2. block (w\<lparr>fs := (fs w)(d \<mapsto> Dir)\<rparr>) = (w2, Inr r) \<and> w' = cleanup d w2"
  by (auto simp: with_tempdir_def split: prod.splits)

lemma body_Inr:
  assumes "make_psea_table_body e a w = (w', Inr r)"
  obtains volcano zscatter pairs processed w1 w2 where
    "calls w1 = calls w"
    "tempdir_block e a volcano zscatter pairs processed (transformed_name (scores_file a))
       (w1\<lparr>fs := (fs w1)(tempdir e \<mapsto> Dir)\<rparr>) = (w2, Inr r)"
    "w' = cleanup (tempdir e) w2"
proof -
  from assms obtain w1 x where p: "prepare e a w = (w1, Inr x)"
    and rest1: "(case x of (volcano, zscatter) \<Rightarrow>
     bindW (read_pairs (pairs_file a)) (\<lambda>pairs.
     bindW (read_csv (scores_file a)) (\<lambda>scores.
     bindW (lift (process_scores scores pairs)) (\<lambda>processed_scores.
     with_tempdir (tempdir e)
       (tempdir_block e a volcano zscatter pairs processed_scores
          (transformed_name (scores_file a))))))) w1 = (w', Inr r)"
    unfolding make_psea_table_body_def bindW_Inr_iff [of "prepare e a"] by blast
  obtain volcano zscatter where x: "x = (volcano, zscatter)"
    by (cases x)
  from rest1 [unfolded x prod.case bindW_Inr_iff lift_Inr_iff]
  obtain wa pairs wb scores processed where
    rp: "read_pairs (pairs_file a) w1 = (wa, Inr pairs)"
    and rc: "read_csv (scores_file a) wa = (wb, Inr scores)"
    and wt: "with_tempdir (tempdir e)
       (tempdir_block e a volcano zscatter pairs processed
          (transformed_name (scores_file a))) wb = (w', Inr r)"
    by blast
  from read_pairs_Inr [OF rp] read_csv_Inr [OF rc] have wb: "wb = w1"
    by simp
  from with_tempdir_Inr [OF wt] obtain w2 where
    "tempdir_block e a volcano zscatter pairs processed (transformed_name (scores_file a))
       (wb\<lparr>fs := (fs wb)(tempdir e \<mapsto> Dir)\<rparr>) = (w2, Inr r)" "w' = cleanup (tempdir e) w2"
    by blast
  with prepare_Inr [OF p] wb show ?thesis
    by (intro that [of w1 volcano zscatter pairs processed w2]) simp_all
qed

text \<open>
  Lines 42-168 taken on their own, without the timer call of line 40: the name of the
  taxon column is \<open>species_name\<close> when \<^verbatim>\<open>species_taxa_file\<close> is a non-empty string and
  \<open>ID\<close> otherwise, and whenever these lines complete, the calls they have made are
  those of the enrichment engine followed by exactly one call of the zscatter action and
  one of the volcano action, both carrying that name as their \<^verbatim>\<open>taxa_access\<close> argument.
\<close>

lemma taxa_access_passed_to_both_actions:
  assumes "make_psea_table_body e a w = (w', Inr r)"
  shows "\<exists>engine_calls z v.
     calls w' = calls w @ engine_calls @ [ActionCall (ZscatterArgs z), ActionCall (VolcanoArgs v)] \<and>
     list_all is_psea_call engine_calls \<and>
     z_taxa_access z = (if species_taxa_file a = [] then ''ID'' else ''species_name'') \<and>
     v_taxa_access v = (if species_taxa_file a = [] then ''ID'' else ''species_name'')"
proof -
  from assms obtain volcano zscatter pairs processed w1 w2 where
    c1: "calls w1 = calls w"
    and block: "tempdir_block e a volcano zscatter pairs processed (transformed_name (scores_file a))
       (w1\<lparr>fs := (fs w1)(tempdir e \<mapsto> Dir)\<rparr>) = (w2, Inr r)"
    and w': "w' = cleanup (tempdir e) w2"
    by (rule body_Inr)
  from block obtain ps sets st w3 art where
    loop: "pair_loop (pair_step e a (taxa_access_of (species_taxa_file a)) ps sets) pairs initial_state
       (w1\<lparr>fs := (fs w1)(tempdir e \<mapsto> Dir)\<rparr>
          \<lparr>fs := (fs (w1\<lparr>fs := (fs w1)(tempdir e \<mapsto> Dir)\<rparr>))
              (transformed_name (scores_file a) \<mapsto> ScoresFile processed)\<rparr>) = (w3, Inr st)"
    and c2: "calls w2 = calls w3 @
       [ActionCall (ZscatterArgs
              \<lparr>zscores = art,
               z_pairs_file = tempdir e @ ''/used_pairs.tsv'',
               spline_file = tempdir e @ ''/spline_data.tsv'',
               p_val_access = ''p.adjust'',
               le_peps_access = ''core_enrichment'',
               z_taxa_access = taxa_access_of (species_taxa_file a),
               highlight_data = table_dir a,
               highlight_threshold = p_val_thresh a\<rparr>),
        ActionCall (VolcanoArgs
              \<lparr>xy_dir = table_dir a,
               xy_access = [''NES'', ''p.adjust''],
               v_taxa_access = taxa_access_of (species_taxa_file a),
               x_threshold = es_thresh a,
               y_threshold = p_val_thresh a,
               xy_labels = [''Enrichment score'', ''Adjusted p-values''],
               v_titles = titles st\<rparr>)]"
    by (rule tempdir_block_Inr)
  from pair_loop_Inr [OF loop] obtain cs where
    cs: "calls w3 = calls w @ cs" "list_all is_psea_call cs"
    using c1 by auto
  have "calls w' = calls w2"
    by (simp add: w' cleanup_def)
  with c2 cs show ?thesis
    by (simp add: taxa_access_of_def)
qed

lemma body_run:
  assumes "prepare e a w = (w1, Inr (volcano, zscatter))"
    and "read_pairs (pairs_file a) w1 = (w1, Inr pairs)"
    and "read_csv (scores_file a) w1 = (w1, Inr scores)"
    and "process_scores scores pairs = Inr processed"
    and "tempdir_block e a volcano zscatter pairs processed (transformed_name (scores_file a))
       (w1\<lparr>fs := (fs w1)(tempdir e \<mapsto> Dir)\<rparr>) = (w2, Inr r)"
  shows "make_psea_table_body e a w = (cleanup (tempdir e) w2, Inr r)"
  using assms by (simp add: make_psea_table_body_def bindW_def lift_def with_tempdir_def)

lemma upt3: "[0..<3] = [0, Suc 0, Suc (Suc 0)]"
  by (simp add: upt_rec numeral_3_eq_3)

lemma demo_processed:
  "process_scores demo_scores [(''A'', ''B'')] =
     Inr \<lparr>index = [''pep1'', ''pep2'', ''pep3''],
          columns = [(''A'', [0, -3, 1]), (''B'', [1, 0, -3])]\<rparr>"
proof -
  have "set (collect_reps [(''A'', ''B'')]) \<subseteq> set (column_labels demo_scores)"
    by (simp add: demo_scores_def column_labels_def)
  from process_scores_present [OF this] show ?thesis
    by (simp add: np_unique_def select_columns_def demo_scores_def apply_columns_def
        spec_transform_def log2_8 log2_16)
qed

lemma demo_prepare:
  "prepare demo_env demo_args (demo_world pairs) =
     ((demo_world pairs)\<lparr>fs := (fs (demo_world pairs))(''./psea_table_outdir'' \<mapsto> Dir)\<rparr>,
      Inr (demo_action ''volcano'', demo_action ''zscatter''))"
  by (simp add: prepare_def bindW_def lift_def ret_def os_mkdir_def demo_env_fields
      demo_args_def SPLINE_TYPES_def demo_world_def)

lemma demo_loop:
  "\<exists>w'. pair_loop (pair_step demo_env demo_args ''ID''
       \<lparr>index = [''pep1'', ''pep2'', ''pep3''],
        columns = [(''A'', [0, -3, 1]), (''B'', [1, 0, -3])]\<rparr> sets)
      [(''A'', ''B'')] initial_state w =
    (w', Inr \<lparr>titles = [''A~B''], used_pairs = [(''A'', ''B'')],
         pair_spline_dict = \<lparr>sp_x = [-3, 0, 1], sp_y = [-3, 0, 1],
            sp_pair = [''A~B'', ''A~B'', ''A~B'']\<rparr>\<rparr>)"
proof -
  let ?P = "\<lparr>index = [''pep1'', ''pep2'', ''pep3''],
        columns = [(''A'', [0, -3, 1]), (''B'', [1, 0, -3 :: real])]\<rparr>"
  have sel: "sorted_selection ?P (''A'', ''B'') =
    Inr \<lparr>index = [''pep2'', ''pep1'', ''pep3''], columns = [(''A'', [-3, 0, 1]), (''B'', [0, 1, -3])]\<rparr>"
    by (simp add: sorted_selection_def loc_columns_def column_labels_def select_columns_def
        sort_values_def take_rows_def argsort_def upt3)
  have "\<exists>w'. pair_step demo_env demo_args ''ID'' ?P sets (''A'', ''B'') initial_state w =
    (w', Inr \<lparr>titles = titles initial_state @ [table_prefix (''A'', ''B'')],
          used_pairs = used_pairs initial_state @ [(''A'', ''B'')],
          pair_spline_dict = extend_spline [-3, 0, 1] [-3, 0, 1] (table_prefix (''A'', ''B''))
             (pair_spline_dict initial_state)\<rparr>)"
    by (rule demo_step [OF sel, where y = "[0, 1, -3]" and m = "[0, 1, 1]"])
       (simp_all add: column_values_def row_maxima_def row_values_def np_max_def upt3)
  then obtain w' where "pair_step demo_env demo_args ''ID'' ?P sets (''A'', ''B'') initial_state w =
    (w', Inr \<lparr>titles = titles initial_state @ [table_prefix (''A'', ''B'')],
          used_pairs = used_pairs initial_state @ [(''A'', ''B'')],
          pair_spline_dict = extend_spline [-3, 0, 1] [-3, 0, 1] (table_prefix (''A'', ''B''))
             (pair_spline_dict initial_state)\<rparr>)"
    by blast
  then have "pair_loop (pair_step demo_env demo_args ''ID'' ?P sets) [(''A'', ''B'')] initial_state w =
    (w', Inr \<lparr>titles = [''A~B''], used_pairs = [(''A'', ''B'')],
         pair_spline_dict = \<lparr>sp_x = [-3, 0, 1], sp_y = [-3, 0, 1],
            sp_pair = [''A~B'', ''A~B'', ''A~B'']\<rparr>\<rparr>)"
    by (simp add: initial_state_def extend_spline_def table_prefix_def numeral_3_eq_3)
  then show ?thesis by blast
qed

lemma demo_body:
  "\<exists>w'. make_psea_table_body demo_env demo_args (demo_world [(''A'', ''B'')]) =
     (w', Inr (Artifact ''zscatter'', Artifact ''volcano''))"
proof -
  let ?w1 = "(demo_world [(''A'', ''B'')])
      \<lparr>fs := (fs (demo_world [(''A'', ''B'')]))(''./psea_table_outdir'' \<mapsto> Dir)\<rparr>"
  let ?P = "\<lparr>index = [''pep1'', ''pep2'', ''pep3''],
        columns = [(''A'', [0, -3, 1]), (''B'', [1, 0, -3 :: real])]\<rparr>"
  let ?file = "transformed_name (scores_file demo_args)"
  let ?w1t = "?w1\<lparr>fs := (fs ?w1)(tempdir demo_env \<mapsto> Dir)\<rparr>"
  obtain w3 where loop: "pair_loop (pair_step demo_env demo_args ''ID'' ?P [(''set1'', [''pep1'', ''pep2''])])
      [(''A'', ''B'')] initial_state (?w1t\<lparr>fs := (fs ?w1t)(?file \<mapsto> ScoresFile ?P)\<rparr>) =
    (w3, Inr \<lparr>titles = [''A~B''], used_pairs = [(''A'', ''B'')],
         pair_spline_dict = \<lparr>sp_x = [-3, 0, 1], sp_y = [-3, 0, 1],
            sp_pair = [''A~B'', ''A~B'', ''A~B'']\<rparr>\<rparr>)"
    using demo_loop by blast
  have "\<exists>w'. tempdir_block demo_env demo_args (demo_action ''volcano'') (demo_action ''zscatter'')
      [(''A'', ''B'')] ?P ?file ?w1t = (w', Inr (Artifact ''zscatter'', Artifact ''volcano''))"
    by (rule demo_block [OF loop]) (simp add: spline_frame_def)
  then obtain w2 where block: "tempdir_block demo_env demo_args (demo_action ''volcano'')
      (demo_action ''zscatter'') [(''A'', ''B'')] ?P ?file ?w1t =
      (w2, Inr (Artifact ''zscatter'', Artifact ''volcano''))"
    by blast
  have "make_psea_table_body demo_env demo_args (demo_world [(''A'', ''B'')]) =
      (cleanup (tempdir demo_env) w2, Inr (Artifact ''zscatter'', Artifact ''volcano''))"
  proof (rule body_run [OF demo_prepare _ _ _ block])
    show "read_pairs (pairs_file demo_args) ?w1 = (?w1, Inr [(''A'', ''B'')])"
      by (simp add: read_pairs_def demo_args_def demo_world_def)
    show "read_csv (scores_file demo_args) ?w1 = (?w1, Inr demo_scores)"
      by (simp add: read_csv_def demo_args_def demo_world_def)
    show "process_scores demo_scores [(''A'', ''B'')] = Inr ?P"
      by (rule demo_processed)
  qed
  then show ?thesis by blast
qed

lemma taxa_access_passed_to_both_actions_instance:
  "\<exists>w' engine_calls z v.
     make_psea_table_body demo_env demo_args (demo_world [(''A'', ''B'')]) =
       (w', Inr (Artifact ''zscatter'', Artifact ''volcano'')) \<and>
     calls w' = engine_calls @ [ActionCall (ZscatterArgs z), ActionCall (VolcanoArgs v)] \<and>
     list_all is_psea_call engine_calls \<and>
     z_taxa_access z = ''ID'' \<and> v_taxa_access v = ''ID''"
proof -
  from demo_body obtain w' where
    run: "make_psea_table_body demo_env demo_args (demo_world [(''A'', ''B'')]) =
       (w', Inr (Artifact ''zscatter'', Artifact ''volcano''))"
    by blast
  from taxa_access_passed_to_both_actions [OF run] obtain engine_calls z v where
    "calls w' = calls (demo_world [(''A'', ''B'')]) @ engine_calls @
        [ActionCall (ZscatterArgs z), ActionCall (VolcanoArgs v)]"
    "list_all is_psea_call engine_calls"
    "z_taxa_access z = (if species_taxa_file demo_args = [] then ''ID'' else ''species_name'')"
    "v_taxa_access v = (if species_taxa_file demo_args = [] then ''ID'' else ''species_name'')"
    by blast
  then have "calls w' = engine_calls @ [ActionCall (ZscatterArgs z), ActionCall (VolcanoArgs v)]"
    and "list_all is_psea_call engine_calls"
    and "z_taxa_access z = ''ID''" and "v_taxa_access v = ''ID''"
    by (simp_all add: demo_world_def demo_args_def)
  with run show ?thesis by blast
qed

text \<open>
  Claim C7. A call of \<^verbatim>\<open>make_psea_table\<close> never passes a \<^verbatim>\<open>taxa_access\<close> argument to
  either visualization action: whatever the arguments, the call makes no call of the
  enrichment engine or of an action, because it ends at line 40, before the name is
  resolved at lines 73-80. So it is for a call with the species taxonomy file
  \<open>taxa.tsv\<close>, which ends with the AttributeError of the timer and an empty list of calls,
  where the claim has \<open>species_name\<close> passed to both actions.
\<close>

theorem make_psea_table_calls_no_action:
  "calls (fst (make_psea_table e a w)) = calls w \<and>
   make_psea_table demo_env (demo_args\<lparr>species_taxa_file := ''taxa.tsv''\<rparr>)
       (demo_world [(''A'', ''B'')]) =
     (demo_world [(''A'', ''B'')], Inl (AttributeError ''time'' ''perf_couter'')) \<and>
   calls (fst (make_psea_table demo_env (demo_args\<lparr>species_taxa_file := ''taxa.tsv''\<rparr>)
       (demo_world [(''A'', ''B'')]))) = []"
  by (simp add: make_psea_table_def time_call_perf_couter bindW_lift_Inl demo_world_def)

end
